theory Spec2Isabelle
  imports Complex_Main "HOL-Library.Word" "HOL-Library.Sublist"
begin

section \<open>JavaScript strings\<close>

text \<open>
  A JavaScript string is a sequence of 16-bit code units. Literals of the source are
  written through \<open>js\<close>, which maps each ASCII character to its code unit.
\<close>

type_synonym jschar = "16 word"
type_synonym jsstring = "jschar list"

definition js :: "string \<Rightarrow> jsstring" where
  "js s = map (\<lambda>c. of_nat (of_char c)) s"

text \<open>
  \<open>a || b\<close> on an optional string \<open>a\<close>: \<open>undefined\<close> and the empty string are
  falsy, every other string is truthy.
\<close>

definition truthy_str :: "jsstring option \<Rightarrow> bool" where
  "truthy_str v = (case v of None \<Rightarrow> False | Some s \<Rightarrow> s \<noteq> [])"

definition or_else :: "jsstring option \<Rightarrow> jsstring \<Rightarrow> jsstring" where
  "or_else v d = (if truthy_str v then (case v of Some s \<Rightarrow> s | None \<Rightarrow> d) else d)"

text \<open>
  \<open>s.split(sep)\<close> for a one-character separator: the pieces between all occurrences
  of the separator; never an empty array.
\<close>

function js_split :: "jschar \<Rightarrow> jsstring \<Rightarrow> jsstring list" where
  "js_split sep s =
     takeWhile (\<lambda>c. c \<noteq> sep) s #
       (case dropWhile (\<lambda>c. c \<noteq> sep) s of
          [] \<Rightarrow> []
        | _ # rest \<Rightarrow> js_split sep rest)"
  by pat_completeness auto
termination
proof (relation "measure (\<lambda>(sep, s). length s)")
  show "wf (measure (\<lambda>(sep, s). length s))" by simp
next
  fix sep :: jschar and s x21 x22
  assume "dropWhile (\<lambda>c. c \<noteq> sep) s = x21 # x22"
  then have "length (x21 # x22) \<le> length s"
    by (metis length_dropWhile_le)
  then show "((sep, x22), sep, s) \<in> measure (\<lambda>(sep, s). length s)"
    by simp
qed

declare js_split.simps [simp del]

text \<open>
  The regular expression \<open>/:(.*?);/\<close> of the source: the leftmost colon from which a
  semicolon is reached without crossing a line terminator (\<open>.\<close> matches no line
  terminator); the group is the text up to the first such semicolon (\<open>*?\<close> is lazy).
\<close>

definition LineTerminator :: "jschar \<Rightarrow> bool" where
  "LineTerminator c \<longleftrightarrow> c = 0x0A \<or> c = 0x0D \<or> c = 0x2028 \<or> c = 0x2029"

fun lazy_dots_until :: "jschar \<Rightarrow> jsstring \<Rightarrow> jsstring option" where
  "lazy_dots_until stop [] = None"
| "lazy_dots_until stop (c # cs) =
     (if c = stop then Some []
      else if LineTerminator c then None
      else map_option (Cons c) (lazy_dots_until stop cs))"

fun match_colon_group_semicolon :: "jsstring \<Rightarrow> jsstring option" where
  "match_colon_group_semicolon [] = None"
| "match_colon_group_semicolon (c # cs) =
     (if c = 0x3A then
        (case lazy_dots_until 0x3B cs of
           Some g \<Rightarrow> Some g
         | None \<Rightarrow> match_colon_group_semicolon cs)
      else match_colon_group_semicolon cs)"

text \<open>
  \<open>s.replace(/pat/g, '')\<close> for a literal pattern: the occurrences are found from the
  left and do not overlap.
\<close>

function js_remove_all :: "jsstring \<Rightarrow> jsstring \<Rightarrow> jsstring" where
  "js_remove_all pat s =
     (if s = [] then []
      else if pat \<noteq> [] \<and> prefix pat s then js_remove_all pat (drop (length pat) s)
      else hd s # js_remove_all pat (tl s))"
  by pat_completeness auto
termination
  by (relation "measure (\<lambda>(pat, s). length s)") auto

declare js_remove_all.simps [simp del]

text \<open>
  \<open>s.trim()\<close> removes the white space and line terminators of ECMAScript from both
  ends.
\<close>

definition js_whitespace :: "jschar \<Rightarrow> bool" where
  "js_whitespace c \<longleftrightarrow>
     c = 0x09 \<or> c = 0x0A \<or> c = 0x0B \<or> c = 0x0C \<or> c = 0x0D \<or> c = 0x20 \<or> c = 0xA0 \<or>
     c = 0x1680 \<or> (0x2000 \<le> c \<and> c \<le> 0x200A) \<or> c = 0x2028 \<or> c = 0x2029 \<or>
     c = 0x202F \<or> c = 0x205F \<or> c = 0x3000 \<or> c = 0xFEFF"

definition js_trim :: "jsstring \<Rightarrow> jsstring" where
  "js_trim s = rev (dropWhile js_whitespace (rev (dropWhile js_whitespace s)))"

section \<open>JSON values and \<open>JSON.parse\<close>\<close>

text \<open>
  The values \<open>JSON.parse\<close> returns. A number is kept as the mathematical value of its
  literal; an object keeps its members in the order of the text, a later member
  overriding an earlier one of the same key when a property is read.
\<close>

datatype json =
    JNull
  | JBool bool
  | JNumber rat
  | JString jsstring
  | JArray "json list"
  | JObject "(jsstring \<times> json) list"

datatype token =
    LBRACE | RBRACE | LBRACKET | RBRACKET | COLON | COMMA
  | TVal json

definition json_ws :: "jschar \<Rightarrow> bool" where
  "json_ws c \<longleftrightarrow> c = 0x20 \<or> c = 0x09 \<or> c = 0x0A \<or> c = 0x0D"

definition digit :: "jschar \<Rightarrow> bool" where
  "digit c \<longleftrightarrow> 0x30 \<le> c \<and> c \<le> 0x39"

definition hex_val :: "jschar \<Rightarrow> nat option" where
  "hex_val c =
     (if 0x30 \<le> c \<and> c \<le> 0x39 then Some (unat c - 0x30)
      else if 0x41 \<le> c \<and> c \<le> 0x46 then Some (unat c - 0x41 + 10)
      else if 0x61 \<le> c \<and> c \<le> 0x66 then Some (unat c - 0x61 + 10)
      else None)"

definition hex4 :: "jschar \<Rightarrow> jschar \<Rightarrow> jschar \<Rightarrow> jschar \<Rightarrow> jschar option" where
  "hex4 a b c d =
     (case (hex_val a, hex_val b, hex_val c, hex_val d) of
        (Some x, Some y, Some z, Some w) \<Rightarrow> Some (of_nat (((x * 16 + y) * 16 + z) * 16 + w))
      | _ \<Rightarrow> None)"

definition unescape :: "jschar \<Rightarrow> jschar option" where
  "unescape e =
     (if e = 0x22 then Some 0x22
      else if e = 0x5C then Some 0x5C
      else if e = 0x2F then Some 0x2F
      else if e = 0x62 then Some 0x08
      else if e = 0x66 then Some 0x0C
      else if e = 0x6E then Some 0x0A
      else if e = 0x72 then Some 0x0D
      else if e = 0x74 then Some 0x09
      else None)"

text \<open>
  The characters of a string literal after its opening quote: the decoded string and
  the text after the closing quote.
\<close>

fun lex_string :: "jsstring \<Rightarrow> (jsstring \<times> jsstring) option" where
  "lex_string [] = None"
| "lex_string (c # cs) =
     (if c = 0x22 then Some ([], cs)
      else if c = 0x5C then
        (case cs of
           [] \<Rightarrow> None
         | e # cs' \<Rightarrow>
             if e = 0x75 then
               (case cs' of
                  h1 # h2 # h3 # h4 # cs'' \<Rightarrow>
                    (case hex4 h1 h2 h3 h4 of
                       None \<Rightarrow> None
                     | Some u \<Rightarrow> map_option (\<lambda>(s, r). (u # s, r)) (lex_string cs''))
                | _ \<Rightarrow> None)
             else
               (case unescape e of
                  None \<Rightarrow> None
                | Some u \<Rightarrow> map_option (\<lambda>(s, r). (u # s, r)) (lex_string cs')))
      else if c < 0x20 then None
      else map_option (\<lambda>(s, r). (c # s, r)) (lex_string cs))"

text \<open>
  A number literal: \<open>-? (0 | [1-9][0-9]*) (. [0-9]+)? ([eE] [+-]? [0-9]+)?\<close>.
\<close>

definition digits_val :: "jsstring \<Rightarrow> nat" where
  "digits_val ds = foldl (\<lambda>n d. 10 * n + (unat d - 0x30)) 0 ds"

definition pow10 :: "int \<Rightarrow> rat" where
  "pow10 e = (if 0 \<le> e then 10 ^ nat e else 1 / 10 ^ nat (- e))"

definition lex_sign :: "jsstring \<Rightarrow> bool \<times> jsstring" where
  "lex_sign cs = (case cs of [] \<Rightarrow> (False, []) | c # r \<Rightarrow> if c = 0x2D then (True, r) else (False, cs))"

definition lex_int_part :: "jsstring \<Rightarrow> (jsstring \<times> jsstring) option" where
  "lex_int_part cs =
     (case cs of
        [] \<Rightarrow> None
      | c # r \<Rightarrow>
          if c = 0x30 then Some ([c], r)
          else if digit c then Some (takeWhile digit cs, dropWhile digit cs)
          else None)"

definition lex_frac :: "jsstring \<Rightarrow> (jsstring \<times> jsstring) option" where
  "lex_frac cs =
     (case cs of
        [] \<Rightarrow> Some ([], [])
      | c # r \<Rightarrow>
          if c = 0x2E then
            (if takeWhile digit r = [] then None
             else Some (takeWhile digit r, dropWhile digit r))
          else Some ([], cs))"

definition lex_exp_digits :: "bool \<Rightarrow> jsstring \<Rightarrow> (int \<times> jsstring) option" where
  "lex_exp_digits neg r =
     (if takeWhile digit r = [] then None
      else Some ((if neg then - 1 else 1) * int (digits_val (takeWhile digit r)),
                 dropWhile digit r))"

definition lex_exp :: "jsstring \<Rightarrow> (int \<times> jsstring) option" where
  "lex_exp cs =
     (case cs of
        [] \<Rightarrow> Some (0, [])
      | c # r \<Rightarrow>
          if c = 0x65 \<or> c = 0x45 then
            (case r of
               [] \<Rightarrow> None
             | s # r' \<Rightarrow>
                 if s = 0x2B then lex_exp_digits False r'
                 else if s = 0x2D then lex_exp_digits True r'
                 else lex_exp_digits False r)
          else Some (0, cs))"

definition lex_number :: "jsstring \<Rightarrow> (rat \<times> jsstring) option" where
  "lex_number cs =
     (case lex_sign cs of
        (neg, cs1) \<Rightarrow>
          (case lex_int_part cs1 of
             None \<Rightarrow> None
           | Some (ip, cs2) \<Rightarrow>
               (case lex_frac cs2 of
                  None \<Rightarrow> None
                | Some (fp, cs3) \<Rightarrow>
                    (case lex_exp cs3 of
                       None \<Rightarrow> None
                     | Some (e, cs4) \<Rightarrow>
                         Some ((if neg then - 1 else 1) * of_nat (digits_val (ip @ fp)) *
                                 pow10 (e - int (length fp)),
                               cs4)))))"

function lex :: "jsstring \<Rightarrow> token list option" where
  "lex [] = Some []"
| "lex (c # cs) =
     (if json_ws c then lex cs
      else if c = 0x7B then map_option (Cons LBRACE) (lex cs)
      else if c = 0x7D then map_option (Cons RBRACE) (lex cs)
      else if c = 0x5B then map_option (Cons LBRACKET) (lex cs)
      else if c = 0x5D then map_option (Cons RBRACKET) (lex cs)
      else if c = 0x3A then map_option (Cons COLON) (lex cs)
      else if c = 0x2C then map_option (Cons COMMA) (lex cs)
      else if c = 0x22 then
        (case lex_string cs of
           None \<Rightarrow> None
         | Some (s, rest) \<Rightarrow> map_option (Cons (TVal (JString s))) (lex rest))
      else if c = 0x2D \<or> digit c then
        (case lex_number (c # cs) of
           None \<Rightarrow> None
         | Some (q, rest) \<Rightarrow> map_option (Cons (TVal (JNumber q))) (lex rest))
      else if prefix (js ''true'') (c # cs) then
        map_option (Cons (TVal (JBool True))) (lex (drop 4 (c # cs)))
      else if prefix (js ''false'') (c # cs) then
        map_option (Cons (TVal (JBool False))) (lex (drop 5 (c # cs)))
      else if prefix (js ''null'') (c # cs) then
        map_option (Cons (TVal JNull)) (lex (drop 4 (c # cs)))
      else None)"
  by pat_completeness auto

text \<open>
  The grammar of JSON over the tokens, as a machine with a stack of the arrays and
  objects that are open: \<open>parse_value\<close> expects a value, \<open>parse_after\<close> has just
  completed one, \<open>parse_member\<close> expects the key of an object's next member. The text
  is accepted when the stack is empty and no token is left after the value.
\<close>

datatype frame =
    ArrayFrame "json list"
  | ObjectFrame "(jsstring \<times> json) list" jsstring

fun parse_value :: "frame list \<Rightarrow> token list \<Rightarrow> json option"
  and parse_after :: "json \<Rightarrow> frame list \<Rightarrow> token list \<Rightarrow> json option"
  and parse_member :: "(jsstring \<times> json) list \<Rightarrow> frame list \<Rightarrow> token list \<Rightarrow> json option"
where
  "parse_value st (TVal v # ts) = parse_after v st ts"
| "parse_value st (LBRACKET # RBRACKET # ts) = parse_after (JArray []) st ts"
| "parse_value st (LBRACKET # ts) = parse_value (ArrayFrame [] # st) ts"
| "parse_value st (LBRACE # RBRACE # ts) = parse_after (JObject []) st ts"
| "parse_value st (LBRACE # ts) = parse_member [] st ts"
| "parse_value st _ = None"
| "parse_after v [] ts = (if ts = [] then Some v else None)"
| "parse_after v (ArrayFrame es # st) (COMMA # ts) = parse_value (ArrayFrame (es @ [v]) # st) ts"
| "parse_after v (ArrayFrame es # st) (RBRACKET # ts) = parse_after (JArray (es @ [v])) st ts"
| "parse_after v (ObjectFrame ms k # st) (COMMA # ts) = parse_member (ms @ [(k, v)]) st ts"
| "parse_after v (ObjectFrame ms k # st) (RBRACE # ts) = parse_after (JObject (ms @ [(k, v)])) st ts"
| "parse_after v _ _ = None"
| "parse_member ms st (TVal (JString k) # COLON # ts) = parse_value (ObjectFrame ms k # st) ts"
| "parse_member ms st _ = None"

section \<open>Errors and the operations of JavaScript that raise them\<close>

text \<open>
  What the module can throw: the \<open>Error\<close> of \<open>getClient\<close>, the \<open>SyntaxError\<close> of
  \<open>JSON.parse\<close>, the \<open>TypeError\<close> of reading a property of \<open>null\<close> or
  \<open>undefined\<close>, and whatever the remote call rejects with.
\<close>

datatype error =
    ApiKeyMissing
  | SyntaxError
  | TypeError
  | RemoteError jsstring

definition JSON_parse :: "jsstring \<Rightarrow> error + json" where
  "JSON_parse s =
     (case lex s of
        None \<Rightarrow> Inl SyntaxError
      | Some ts \<Rightarrow> (case parse_value [] ts of None \<Rightarrow> Inl SyntaxError | Some v \<Rightarrow> Inr v))"

text \<open>
  \<open>v.name\<close> for a parsed value and a name that no prototype defines: a \<open>TypeError\<close>
  on \<open>null\<close>, the member of an object (the last of that key), and \<open>undefined\<close>
  (\<open>None\<close>) otherwise.
\<close>

fun get_property :: "json \<Rightarrow> jsstring \<Rightarrow> error + json option" where
  "get_property JNull name = Inl TypeError"
| "get_property (JObject ms) name = Inr (map_of (rev ms) name)"
| "get_property _ name = Inr None"

text \<open>
  \<open>!!v\<close>: \<open>undefined\<close>, \<open>null\<close>, \<open>false\<close>, the empty string and a number that is
  zero are falsy. The Number of a literal is zero when its value rounds to zero as a
  double, that is when its magnitude is at most \<open>1 / 2 ^ 1075\<close>.
\<close>

fun ToBoolean :: "json option \<Rightarrow> bool" where
  "ToBoolean None = False"
| "ToBoolean (Some JNull) = False"
| "ToBoolean (Some (JBool b)) = b"
| "ToBoolean (Some (JNumber q)) = (\<bar>q\<bar> > 1 / 2 ^ 1075)"
| "ToBoolean (Some (JString s)) = (s \<noteq> [])"
| "ToBoolean (Some (JArray es)) = True"
| "ToBoolean (Some (JObject ms)) = True"

section \<open>The remote client\<close>

text \<open>
  The types of the SDK that the module reads and writes. Every field that the source
  reads through \<open>?.\<close> or tests for truthiness is optional.
\<close>

record Blob =
  data :: "jsstring option"
  mimeType :: "jsstring option"

record Part =
  inlineData :: "Blob option"
  part_text :: "jsstring option"

record Content =
  parts :: "Part list option"

record Candidate =
  content :: "Content option"

record GenerateContentResponse =
  candidates :: "Candidate list option"
  response_text :: "jsstring option"

datatype Modality = TEXT | IMAGE | AUDIO

text \<open>
  \<open>VoiceName\<close> is declared in \<open>types.ts\<close>; the module only passes a voice on to
  the request, so a voice is its name here.
\<close>

datatype VoiceName = VoiceName jsstring

datatype Schema =
    ARRAY Schema
  | OBJECT "(jsstring \<times> Schema) list" "jsstring list"
  | STRING jsstring

datatype ContentUnion =
    ContentList "Content list"
  | ContentString jsstring
  | ContentObject Content

record GenerateContentConfig =
  systemInstruction :: "jsstring option"
  responseModalities :: "Modality list option"
  voiceName :: "VoiceName option"
  responseMimeType :: "jsstring option"
  responseSchema :: "Schema option"
  aspectRatio :: "jsstring option"

record GenerateContentParameters =
  model :: jsstring
  contents :: ContentUnion
  config :: GenerateContentConfig

definition no_config :: GenerateContentConfig where
  "no_config =
     \<lparr>systemInstruction = None, responseModalities = None, voiceName = None,
      responseMimeType = None, responseSchema = None, aspectRatio = None\<rparr>"

definition text_part :: "jsstring \<Rightarrow> Part" where
  "text_part t = \<lparr>inlineData = None, part_text = Some t\<rparr>"

definition inline_part :: "jsstring option \<Rightarrow> jsstring \<Rightarrow> Part" where
  "inline_part d m = \<lparr>inlineData = Some \<lparr>data = d, mimeType = Some m\<rparr>, part_text = None\<rparr>"

text \<open>
  A client is the key it was constructed with. \<open>ai.models.generateContent\<close> is the
  remote service: any function from the client's key and the request to a response or
  a thrown error. What an operation does besides returning is recorded as a list of
  events, in order: constructing a client, sending a request, writing to the console.
\<close>

datatype client = GoogleGenAI jsstring

type_synonym remote = "client \<Rightarrow> GenerateContentParameters \<Rightarrow> error + GenerateContentResponse"

datatype event =
    NewClient jsstring
  | Request client GenerateContentParameters
  | ConsoleError jsstring error

type_synonym 'a outcome = "(error + 'a) \<times> event list"

text \<open>\<open>xs?.[0]\<close> on an optional array.\<close>

definition index0 :: "'a list option \<Rightarrow> 'a option" where
  "index0 xs = (case xs of None \<Rightarrow> None | Some [] \<Rightarrow> None | Some (x # _) \<Rightarrow> Some x)"

section \<open>The module \<open>services/geminiService.ts\<close>\<close>

text \<open>
  \<open>ENV_API_KEY\<close> is read once from \<open>process.env.API_KEY\<close>, the argument
  \<open>env\<close> of every operation below.
\<close>

definition ENV_API_KEY :: "jsstring option \<Rightarrow> jsstring" where
  "ENV_API_KEY env = or_else env []"

definition getClient :: "jsstring option \<Rightarrow> jsstring option \<Rightarrow> client outcome" where
  "getClient env apiKey =
     (let key = or_else apiKey (ENV_API_KEY env) in
      if key = [] then (Inl ApiKeyMissing, [])
      else (Inr (GoogleGenAI key), [NewClient key]))"

subsection \<open>\<open>generateSpeech\<close>\<close>

definition speech_request :: "jsstring \<Rightarrow> VoiceName \<Rightarrow> jsstring \<Rightarrow> GenerateContentParameters" where
  "speech_request text voice stylePrompt =
     \<lparr>model = js ''gemini-2.5-flash-preview-tts'',
      contents = ContentList [\<lparr>parts = Some [text_part text]\<rparr>],
      config = no_config
        \<lparr>systemInstruction := Some stylePrompt,
         responseModalities := Some [AUDIO],
         voiceName := Some voice\<rparr>\<rparr>"

definition generateSpeech ::
  "jsstring option \<Rightarrow> remote \<Rightarrow> jsstring \<Rightarrow> VoiceName \<Rightarrow> jsstring \<Rightarrow> jsstring option \<Rightarrow>
   jsstring option outcome" where
  "generateSpeech env remote text voice stylePrompt apiKey =
     (case getClient env apiKey of
        (Inl e, evs) \<Rightarrow> (Inl e, evs)
      | (Inr ai, evs) \<Rightarrow>
          (case remote ai (speech_request text voice stylePrompt) of
             Inl error \<Rightarrow>
               (Inl error,
                evs @ [Request ai (speech_request text voice stylePrompt),
                       ConsoleError (js ''Error generating speech:'') error])
           | Inr response \<Rightarrow>
               (let candidate = index0 (candidates response);
                    audioPart = index0 (Option.bind (Option.bind candidate content) parts)
                in (Inr (case audioPart of
                           None \<Rightarrow> None
                         | Some p \<Rightarrow>
                             (case inlineData p of
                                None \<Rightarrow> None
                              | Some b \<Rightarrow> if truthy_str (data b) then data b else None)),
                    evs @ [Request ai (speech_request text voice stylePrompt)]))))"

subsection \<open>\<open>generateStoryboard\<close>\<close>

text \<open>The lines of a template literal, joined by line feeds.\<close>

fun js_lines :: "string list \<Rightarrow> jsstring" where
  "js_lines [] = []"
| "js_lines [l] = js l"
| "js_lines (l # ls) = js l @ 0x0A # js_lines ls"

definition storyboard_instruction :: jsstring where
  "storyboard_instruction = js_lines
     [''You are an expert storyboard artist and video director. Your task is to split the provided story into a highly granular sequence of scenes for a dynamic video.'',
      [],
      ''CRITICAL RULE: Create a separate scene for EVERY SINGLE SENTENCE.'',
      ''- Do NOT group multiple sentences into one scene.'',
      ''- If a sentence is very long or complex, you may even split it into two scenes.'',
      ''- The goal is to ensure the visual image changes frequently (every few seconds) to keep the viewer engaged.'',
      ''- Never allow a single image to remain on screen for a long paragraph.'',
      [],
      ''For each scene:'',
      ''1. Extract the exact text segment (usually just one sentence).'',
      ''2. Write a highly detailed, cinematic image generation prompt that visualizes that specific moment, suitable for vertical video (9:16 format), including camera angles, lighting, and mood.'',
      ''3. Ensure visual consistency across prompts (e.g. if the main character is wearing a red cloak in scene 1, ensure they are described similarly in scene 2).'']"

definition storyboard_schema :: Schema where
  "storyboard_schema =
     ARRAY (OBJECT
       [(js ''narrativeText'',
         STRING (js ''The specific sentence or phrase from the original text for this scene.'')),
        (js ''imagePrompt'',
         STRING (js ''A detailed visual description of the scene suitable for an image generation model.''))]
       [js ''narrativeText'', js ''imagePrompt''])"

definition storyboard_request :: "jsstring \<Rightarrow> GenerateContentParameters" where
  "storyboard_request fullText =
     \<lparr>model = js ''gemini-2.5-flash'',
      contents = ContentString fullText,
      config = no_config
        \<lparr>systemInstruction := Some storyboard_instruction,
         responseMimeType := Some (js ''application/json''),
         responseSchema := Some storyboard_schema\<rparr>\<rparr>"

text \<open>
  Lines 93 to 95: the response text, or \<open>[]\<close> when it is absent or empty, without
  its code fences and trimmed.
\<close>

definition cleanedText :: "jsstring option \<Rightarrow> jsstring" where
  "cleanedText t =
     js_trim (js_remove_all (js ''```'') (js_remove_all (js ''```json'') (or_else t (js ''[]''))))"

text \<open>
  The result is the parsed value as it is: \<open>as StoryboardSegment[]\<close> is a type
  assertion and checks nothing.
\<close>

definition generateStoryboard ::
  "jsstring option \<Rightarrow> remote \<Rightarrow> jsstring \<Rightarrow> jsstring option \<Rightarrow> json outcome" where
  "generateStoryboard env remote fullText apiKey =
     (case getClient env apiKey of
        (Inl e, evs) \<Rightarrow> (Inl e, evs)
      | (Inr ai, evs) \<Rightarrow>
          (case remote ai (storyboard_request fullText) of
             Inl error \<Rightarrow>
               (Inl error,
                evs @ [Request ai (storyboard_request fullText),
                       ConsoleError (js ''Error generating storyboard:'') error])
           | Inr response \<Rightarrow>
               (case JSON_parse (cleanedText (response_text response)) of
                  Inl error \<Rightarrow>
                    (Inl error,
                     evs @ [Request ai (storyboard_request fullText),
                            ConsoleError (js ''Error generating storyboard:'') error])
                | Inr segments \<Rightarrow>
                    (Inr segments, evs @ [Request ai (storyboard_request fullText)]))))"

subsection \<open>\<open>generateSceneImage\<close>\<close>

text \<open>
  Lines 112 and 113 (and again 166 and 167): the data URI is split at its commas; the
  header is the first piece, the payload the second (\<open>undefined\<close> when there is no
  comma); the MIME type is the group of the header's match, or \<open>image/png\<close> when
  there is no match or the group is empty. Were the array empty, \<open>header.match\<close>
  would throw a \<open>TypeError\<close>.
\<close>

definition split_data_uri :: "jsstring \<Rightarrow> error + (jsstring option \<times> jsstring)" where
  "split_data_uri uri =
     (case js_split 0x2C uri of
        [] \<Rightarrow> Inl TypeError
      | header # rest \<Rightarrow>
          Inr (index0 (Some rest),
               or_else (match_colon_group_semicolon header) (js ''image/png'')))"

definition style_instruction :: "jsstring \<Rightarrow> jsstring" where
  "style_instruction prompt =
     js ''Adopt the artistic style, color palette, and mood of the reference image provided above. Generate a new scene based on this description: '' @ prompt"

definition scene_parts :: "jsstring \<Rightarrow> jsstring option \<Rightarrow> error + Part list" where
  "scene_parts prompt referenceImageBase64 =
     (case referenceImageBase64 of
        None \<Rightarrow> Inr [text_part prompt]
      | Some ref \<Rightarrow>
          if ref = [] then Inr [text_part prompt]
          else
            (case split_data_uri ref of
               Inl e \<Rightarrow> Inl e
             | Inr (base64Data, mimeType') \<Rightarrow>
                 Inr [inline_part base64Data mimeType', text_part (style_instruction prompt)]))"

definition scene_request :: "Part list \<Rightarrow> GenerateContentParameters" where
  "scene_request ps =
     \<lparr>model = js ''gemini-2.5-flash-image'',
      contents = ContentObject \<lparr>parts = Some ps\<rparr>,
      config = no_config\<lparr>aspectRatio := Some (js ''9:16'')\<rparr>\<rparr>"

text \<open>
  The loop of lines 144 to 148 over the parts of the first candidate: the first part
  whose inline data is present with a non-empty payload is returned as a data URI.
\<close>

fun first_image :: "Part list \<Rightarrow> jsstring option" where
  "first_image [] = None"
| "first_image (p # ps) =
     (case inlineData p of
        None \<Rightarrow> first_image ps
      | Some b \<Rightarrow>
          (case data b of
             None \<Rightarrow> first_image ps
           | Some d \<Rightarrow>
               if d = [] then first_image ps
               else Some (js ''data:'' @ or_else (mimeType b) (js ''image/png'') @
                          js '';base64,'' @ d)))"

text \<open>Line 144: \<open>response.candidates?.[0]?.content?.parts || []\<close>.\<close>

definition response_parts :: "GenerateContentResponse \<Rightarrow> Part list" where
  "response_parts response =
     (case Option.bind (Option.bind (index0 (candidates response)) content) parts of
        None \<Rightarrow> []
      | Some ps \<Rightarrow> ps)"

definition generateSceneImage ::
  "jsstring option \<Rightarrow> remote \<Rightarrow> jsstring \<Rightarrow> jsstring option \<Rightarrow> jsstring option \<Rightarrow>
   jsstring option outcome" where
  "generateSceneImage env remote prompt referenceImageBase64 apiKey =
     (case getClient env apiKey of
        (Inl e, evs) \<Rightarrow> (Inl e, evs)
      | (Inr ai, evs) \<Rightarrow>
          (case scene_parts prompt referenceImageBase64 of
             Inl e \<Rightarrow> (Inl e, evs)
           | Inr ps \<Rightarrow>
               (case remote ai (scene_request ps) of
                  Inl error \<Rightarrow>
                    (Inl error,
                     evs @ [Request ai (scene_request ps),
                            ConsoleError (js ''Error generating scene image:'') error])
                | Inr response \<Rightarrow>
                    (Inr (first_image (response_parts response)),
                     evs @ [Request ai (scene_request ps)]))))"

subsection \<open>\<open>checkImageForCharacter\<close>\<close>

definition character_question :: jsstring where
  "character_question =
     js ''Analyze this image. Does it contain a visible person, character, skeleton, or humanoid figure that serves as the main subject? Answer with JSON: {\"hasCharacter\": boolean}''"

definition character_request :: "jsstring option \<Rightarrow> jsstring \<Rightarrow> GenerateContentParameters" where
  "character_request base64Data mimeType' =
     \<lparr>model = js ''gemini-2.5-flash'',
      contents = ContentObject
        \<lparr>parts = Some [inline_part base64Data mimeType', text_part character_question]\<rparr>,
      config = no_config\<lparr>responseMimeType := Some (js ''application/json'')\<rparr>\<rparr>"

text \<open>
  Lines 183 to 187, inside the \<open>try\<close>: the answer read from a response, or the error
  that reading it throws.
\<close>

definition character_answer :: "GenerateContentResponse \<Rightarrow> error + bool" where
  "character_answer response =
     (case response_text response of
        None \<Rightarrow> Inr True
      | Some text \<Rightarrow>
          if text = [] then Inr True
          else
            (case JSON_parse text of
               Inl e \<Rightarrow> Inl e
             | Inr json \<Rightarrow>
                 (case get_property json (js ''hasCharacter'') of
                    Inl e \<Rightarrow> Inl e
                  | Inr v \<Rightarrow> Inr (ToBoolean v))))"

definition checkImageForCharacter ::
  "jsstring option \<Rightarrow> remote \<Rightarrow> jsstring \<Rightarrow> jsstring option \<Rightarrow> bool outcome" where
  "checkImageForCharacter env remote base64Image apiKey =
     (if \<not> truthy_str apiKey \<and> ENV_API_KEY env = [] then (Inr True, [])
      else
        (case getClient env apiKey of
           (Inl e, evs) \<Rightarrow> (Inl e, evs)
         | (Inr ai, evs) \<Rightarrow>
             (case split_data_uri base64Image of
                Inl e \<Rightarrow> (Inl e, evs)
              | Inr (base64Data, mimeType') \<Rightarrow>
                  (case remote ai (character_request base64Data mimeType') of
                     Inl e \<Rightarrow>
                       (Inr True,
                        evs @ [Request ai (character_request base64Data mimeType'),
                               ConsoleError (js ''Error analyzing image for character content:'') e])
                   | Inr response \<Rightarrow>
                       (case character_answer response of
                          Inl e \<Rightarrow>
                            (Inr True,
                             evs @ [Request ai (character_request base64Data mimeType'),
                                    ConsoleError (js ''Error analyzing image for character content:'') e])
                        | Inr b \<Rightarrow>
                            (Inr b, evs @ [Request ai (character_request base64Data mimeType')]))))))"

section \<open>Inputs of the examples\<close>

text \<open>
  Three remote services: one that rejects every request, one that answers with a given
  response text and no candidate, one that answers with one candidate of given parts.
\<close>

definition remote_throws :: remote where
  "remote_throws ai request = Inl (RemoteError (js ''503 Service Unavailable''))"

definition remote_text :: "jsstring option \<Rightarrow> remote" where
  "remote_text t ai request = Inr \<lparr>candidates = None, response_text = t\<rparr>"

definition remote_parts :: "Part list \<Rightarrow> remote" where
  "remote_parts ps ai request =
     Inr \<lparr>candidates = Some [\<lparr>content = Some \<lparr>parts = Some ps\<rparr>\<rparr>], response_text = None\<rparr>"

section \<open>Termination of the lexer\<close>

text \<open>Every token consumes at least one character.\<close>

lemma lex_string_shorter: "lex_string cs = Some (s, rest) \<Longrightarrow> length rest < length cs"
proof (induction cs arbitrary: s rest rule: lex_string.induct)
  case 1
  then show ?case by simp
next
  case (2 c cs)
  then show ?case
    by (fastforce split: if_splits list.splits option.splits)
qed

lemma lex_sign_shorter: "lex_sign cs = (neg, r) \<Longrightarrow> length r \<le> length cs"
  by (auto simp: lex_sign_def split: list.splits if_splits)

lemma lex_int_part_shorter: "lex_int_part cs = Some (ds, r) \<Longrightarrow> length r < length cs"
proof -
  assume a: "lex_int_part cs = Some (ds, r)"
  then obtain c cs' where cs: "cs = c # cs'"
    by (cases cs) (auto simp: lex_int_part_def)
  show ?thesis
  proof (cases "c = 0x30")
    case True
    with a cs show ?thesis by (simp add: lex_int_part_def)
  next
    case False
    with a cs have "digit c" and "r = dropWhile digit cs'"
      by (auto simp: lex_int_part_def split: if_splits)
    moreover have "length (dropWhile digit cs') \<le> length cs'"
      by (rule length_dropWhile_le)
    ultimately show ?thesis using cs by simp
  qed
qed

lemma lex_frac_shorter: "lex_frac cs = Some (ds, r) \<Longrightarrow> length r \<le> length cs"
proof -
  assume a: "lex_frac cs = Some (ds, r)"
  have "\<And>xs. length (dropWhile digit xs) \<le> Suc (length xs)"
    by (rule le_SucI) (rule length_dropWhile_le)
  with a show ?thesis
    by (auto simp: lex_frac_def split: list.splits if_splits)
qed

lemma lex_exp_digits_shorter: "lex_exp_digits neg cs = Some (e, r) \<Longrightarrow> length r \<le> length cs"
  by (auto simp: lex_exp_digits_def length_dropWhile_le split: if_splits)

lemma lex_exp_shorter: "lex_exp cs = Some (e, r) \<Longrightarrow> length r \<le> length cs"
proof -
  assume a: "lex_exp cs = Some (e, r)"
  show ?thesis
  proof (cases cs)
    case Nil
    with a show ?thesis by (simp add: lex_exp_def)
  next
    case (Cons c cs1)
    show ?thesis
    proof (cases "c = 0x65 \<or> c = 0x45")
      case False
      with a Cons show ?thesis by (auto simp: lex_exp_def)
    next
      case True
      with a Cons obtain s cs2 where cs1: "cs1 = s # cs2"
        by (cases cs1) (auto simp: lex_exp_def)
      from a Cons True cs1 have
        "lex_exp_digits False cs2 = Some (e, r) \<or> lex_exp_digits True cs2 = Some (e, r) \<or>
         lex_exp_digits False cs1 = Some (e, r)"
        by (auto simp: lex_exp_def split: if_splits)
      then have "length r \<le> length cs1"
        using lex_exp_digits_shorter [of _ cs2 e r] lex_exp_digits_shorter [of _ cs1 e r] cs1
        by fastforce
      with Cons show ?thesis by simp
    qed
  qed
qed

lemma lex_number_shorter: "lex_number cs = Some (q, r) \<Longrightarrow> length r < length cs"
proof -
  assume a: "lex_number cs = Some (q, r)"
  obtain neg cs1 where s: "lex_sign cs = (neg, cs1)"
    by (cases "lex_sign cs")
  from a s obtain ip cs2 where i: "lex_int_part cs1 = Some (ip, cs2)"
    by (auto simp: lex_number_def split: option.splits)
  from a s i obtain fp cs3 where f: "lex_frac cs2 = Some (fp, cs3)"
    by (auto simp: lex_number_def split: option.splits)
  from a s i f obtain e where x: "lex_exp cs3 = Some (e, r)"
    by (auto simp: lex_number_def split: option.splits)
  from lex_sign_shorter [OF s] lex_int_part_shorter [OF i] lex_frac_shorter [OF f]
    lex_exp_shorter [OF x]
  show ?thesis by simp
qed

termination lex
proof (relation "measure length")
  show "wf (measure length)" by simp
next
  fix c :: jschar and cs x2 x y
  assume "lex_string cs = Some x2" and "(x, y) = x2"
  then have "lex_string cs = Some (x, y)" by simp
  from lex_string_shorter [OF this]
  show "(y, c # cs) \<in> measure length" by simp
next
  fix c :: jschar and cs x2 x y
  assume "lex_number (c # cs) = Some x2" and "(x, y) = x2"
  then have "lex_number (c # cs) = Some (x, y)" by simp
  from lex_number_shorter [OF this]
  show "(y, c # cs) \<in> measure length" by simp
qed auto

section \<open>Facts about the string operations\<close>

lemma js_remove_all_Nil: "js_remove_all pat [] = []"
  by (simp add: js_remove_all.simps)

lemma js_remove_all_match:
  "pat \<noteq> [] \<Longrightarrow> js_remove_all pat (pat @ s) = js_remove_all pat s"
  by (subst js_remove_all.simps) simp

lemma js_remove_all_skip:
  "pat = [] \<or> \<not> prefix pat (c # s) \<Longrightarrow> js_remove_all pat (c # s) = c # js_remove_all pat s"
  by (subst js_remove_all.simps) auto

lemma js_remove_all_other:
  assumes "pat \<noteq> []" and "\<forall>c\<in>set w. c \<noteq> hd pat"
  shows "js_remove_all pat (w @ s) = w @ js_remove_all pat s"
  using assms(2)
proof (induction w)
  case Nil
  then show ?case by simp
next
  case (Cons c w)
  from assms(1) Cons.prems have "\<not> prefix pat (c # w @ s)"
    by (cases pat) auto
  with Cons show ?case
    by (simp add: js_remove_all_skip)
qed

lemma prefix_append_cases:
  assumes "prefix pat (t @ y)" and "\<not> prefix pat t"
  shows "length t < length pat \<and> prefix (drop (length t) pat) y"
proof -
  from assms obtain us where us: "pat = t @ us" "prefix us y"
    by (auto simp: prefix_append)
  with assms(2) have "us \<noteq> []" by auto
  with us show ?thesis by simp
qed

lemma js_remove_all_append:
  assumes "\<forall>k. 0 < k \<and> k < length pat \<longrightarrow> \<not> prefix (drop k pat) y"
  shows "js_remove_all pat (t @ y) = js_remove_all pat t @ js_remove_all pat y"
  using assms
proof (induction pat t rule: js_remove_all.induct)
  case (1 pat s)
  show ?case
  proof (cases s)
    case Nil
    then show ?thesis by (simp add: js_remove_all_Nil)
  next
    case (Cons c s')
    show ?thesis
    proof (cases "pat \<noteq> [] \<and> prefix pat s")
      case True
      then obtain r where r: "s = pat @ r"
        by (auto elim: prefixE)
      from True r have d: "drop (length pat) s = r" by simp
      from 1(1) [OF _ True] Cons 1(3) d
      have "js_remove_all pat (r @ y) = js_remove_all pat r @ js_remove_all pat y"
        by simp
      with True r show ?thesis
        using js_remove_all_match [of pat "r @ y"] js_remove_all_match [of pat r]
        by simp
    next
      case False
      from 1(2) [OF _ False] Cons 1(3)
      have ih: "js_remove_all pat (s' @ y) = js_remove_all pat s' @ js_remove_all pat y"
        by simp
      have np: "pat = [] \<or> \<not> prefix pat (c # s' @ y)"
      proof (cases "pat = []")
        case True
        then show ?thesis by simp
      next
        case ne: False
        with False have ns: "\<not> prefix pat s" by simp
        have "\<not> prefix pat (s @ y)"
        proof
          assume "prefix pat (s @ y)"
          from prefix_append_cases [OF this ns] 1(3) Cons show False by auto
        qed
        with Cons show ?thesis by simp
      qed
      from False Cons have "pat = [] \<or> \<not> prefix pat (c # s')" by auto
      with np ih Cons show ?thesis
        by (simp add: js_remove_all_skip)
    qed
  qed
qed


lemma js_remove_all_other_end:
  assumes "pat \<noteq> []" and "\<forall>c\<in>set w. c \<noteq> hd pat"
  shows "js_remove_all pat w = w"
  using js_remove_all_other [OF assms, of "[]"] by (simp add: js_remove_all_Nil)

lemma proper_prefix_replicate:
  assumes "prefix (replicate n b) (s @ replicate n b)" and "\<not> prefix (replicate n b) s"
  shows "\<exists>m. s = replicate m b"
proof -
  from assms obtain us where "replicate n b = s @ us"
    by (auto simp: prefix_append)
  then have "s = take (length s) (replicate n b)"
    by (metis append_eq_conv_conj)
  then have "s = replicate (min (length s) n) b" by simp
  then show ?thesis ..
qed

lemma js_remove_all_trailing_match:
  "0 < n \<Longrightarrow> js_remove_all (replicate n b) (s @ replicate n b) = js_remove_all (replicate n b) s"
proof (induction "replicate n b" s rule: js_remove_all.induct)
  case (1 s)
  let ?pat = "replicate n b"
  from 1(3) have ne: "?pat \<noteq> []" by simp
  show ?case
  proof (cases s)
    case Nil
    with ne show ?thesis
      using js_remove_all_match [of ?pat "[]"] by simp
  next
    case (Cons c s')
    show ?thesis
    proof (cases "prefix ?pat s")
      case True
      then obtain r where r: "s = ?pat @ r"
        by (auto elim: prefixE)
      then have d: "drop (length ?pat) s = r"
        by (metis append_eq_conv_conj)
      from 1(1) Cons True ne 1(3) d
      have "js_remove_all ?pat (r @ ?pat) = js_remove_all ?pat r" by simp
      with r ne show ?thesis
        using js_remove_all_match [of ?pat "r @ ?pat"] js_remove_all_match [of ?pat r]
        by simp
    next
      case False
      from 1(2) Cons False 1(3)
      have ih: "js_remove_all ?pat (s' @ ?pat) = js_remove_all ?pat s'" by simp
      show ?thesis
      proof (cases "prefix ?pat (s @ ?pat)")
        case True
        from proper_prefix_replicate [OF True False] obtain m where m: "s = replicate m b" ..
        then have "s @ ?pat = ?pat @ s"
          by (simp add: replicate_add [symmetric] add.commute)
        with ne show ?thesis
          using js_remove_all_match [of ?pat s] by simp
      next
        case np: False
        with False ih Cons show ?thesis
          by (simp add: js_remove_all_skip)
      qed
    qed
  qed
qed

lemma js_trim_leading:
  "\<forall>c\<in>set w. js_whitespace c \<Longrightarrow> js_trim (w @ s) = js_trim s"
  by (simp add: js_trim_def)

lemma js_trim_trailing:
  assumes "\<forall>c\<in>set w. js_whitespace c"
  shows "js_trim (s @ w) = js_trim s"
proof (cases "\<forall>c\<in>set s. js_whitespace c")
  case True
  then have a: "dropWhile js_whitespace s = []" by simp
  from True assms have b: "dropWhile js_whitespace (s @ w) = []" by simp
  show ?thesis by (simp only: js_trim_def a b)
next
  case False
  then have a: "dropWhile js_whitespace (s @ w) = dropWhile js_whitespace s @ w"
    by (auto simp: dropWhile_append)
  have b: "dropWhile js_whitespace (rev w @ r) = dropWhile js_whitespace r" for r
    using assms by (intro dropWhile_append2) simp
  show ?thesis by (simp add: js_trim_def a b)
qed


lemma fence_json_eq: "js ''```json'' = [0x60, 0x60, 0x60, 0x6A, 0x73, 0x6F, 0x6E]"
  by (simp add: js_def)

lemma fence_eq: "js ''```'' = replicate 3 0x60"
  by (simp add: js_def numeral_3_eq_3)

lemma whitespace_not_fence: "js_whitespace c \<Longrightarrow> c \<noteq> 0x60"
  by (auto simp: js_whitespace_def)

lemma no_fence_json_across:
  assumes "\<forall>c\<in>set w2. js_whitespace c" and "\<forall>c\<in>set w3. js_whitespace c"
    and "0 < k" and "k < length (js ''```json'')"
  shows "\<not> prefix (drop k (js ''```json'')) (w2 @ js ''```'' @ w3)"
proof -
  from assms(3,4) have k: "k = 1 \<or> k = 2 \<or> k = 3 \<or> k = 4 \<or> k = 5 \<or> k = 6"
    by (auto simp: fence_json_eq)
  show ?thesis
  proof (cases w2)
    case Nil
    show ?thesis
    proof (cases w3)
      case Nil
      with \<open>w2 = []\<close> k show ?thesis
        by (auto simp: fence_json_eq fence_eq numeral_3_eq_3)
    next
      case (Cons c w)
      with assms(2) have "c \<noteq> 0x6A" by (auto simp: js_whitespace_def)
      with Cons \<open>w2 = []\<close> k show ?thesis
        by (auto simp: fence_json_eq fence_eq numeral_3_eq_3)
    qed
  next
    case (Cons c w)
    with assms(1) have "js_whitespace c" by simp
    then have "c \<noteq> 0x60" "c \<noteq> 0x6A" "c \<noteq> 0x73" "c \<noteq> 0x6F" "c \<noteq> 0x6E"
      by (auto simp: js_whitespace_def)
    with Cons k show ?thesis
      by (auto simp: fence_json_eq)
  qed
qed


lemma cleanedText_fenced:
  assumes t: "t \<noteq> []"
    and w: "\<forall>c\<in>set w0. js_whitespace c" "\<forall>c\<in>set w1. js_whitespace c"
      "\<forall>c\<in>set w2. js_whitespace c" "\<forall>c\<in>set w3. js_whitespace c"
  shows "cleanedText (Some (w0 @ js ''```json'' @ w1 @ t @ w2 @ js ''```'' @ w3)) =
         cleanedText (Some t)"
proof -
  let ?J = "js ''```json''" and ?F = "js ''```''"
  have J: "?J \<noteq> []" "hd ?J = 0x60" by (simp_all add: fence_json_eq)
  have F: "?F \<noteq> []" "hd ?F = 0x60" "?F = replicate 3 0x60" "length ?F = 3"
    by (simp_all add: fence_eq)
  have nJ: "\<forall>c\<in>set w. c \<noteq> hd ?J" and nF: "\<forall>c\<in>set w. c \<noteq> hd ?F"
    if "\<forall>c\<in>set w. js_whitespace c" for w
    using that whitespace_not_fence by (auto simp: J F)
  have hdF: "\<not> prefix (drop k ?F) w" if "\<forall>c\<in>set w. js_whitespace c" "0 < k" "k < length ?F" for w k
  proof (cases w)
    case Nil
    with that show ?thesis by simp
  next
    case (Cons c w')
    with that(1) have "c \<noteq> 0x60" using whitespace_not_fence by simp
    moreover from that(3) have "drop k ?F = replicate (3 - k) 0x60" "0 < 3 - k"
      by (simp_all add: F)
    ultimately show ?thesis using Cons
      by (cases "3 - k") auto
  qed
  define T where "T = js_remove_all ?J t"
  have tailJ: "js_remove_all ?J (w2 @ ?F @ w3) = w2 @ ?F @ w3"
  proof -
    have "\<forall>c\<in>set w3. c \<noteq> 0x6A \<and> c \<noteq> 0x60" using w(4) by (auto simp: js_whitespace_def)
    then have "js_remove_all ?J (?F @ w3) = ?F @ js_remove_all ?J w3"
      by (cases w3) (simp_all add: fence_json_eq fence_eq numeral_3_eq_3 js_remove_all_skip js_remove_all_Nil)
    also have "js_remove_all ?J w3 = w3"
      by (rule js_remove_all_other_end [OF J(1) nJ [OF w(4)]])
    finally show ?thesis
      using js_remove_all_other [OF J(1) nJ [OF w(3)], of "?F @ w3"] by simp
  qed
  have "js_remove_all ?J (w0 @ ?J @ w1 @ t @ w2 @ ?F @ w3) =
        w0 @ js_remove_all ?J (?J @ w1 @ t @ w2 @ ?F @ w3)"
    by (rule js_remove_all_other [OF J(1) nJ [OF w(1)]])
  also have "js_remove_all ?J (?J @ w1 @ t @ w2 @ ?F @ w3) =
             js_remove_all ?J (w1 @ t @ w2 @ ?F @ w3)"
    by (rule js_remove_all_match [OF J(1)])
  also have "\<dots> = w1 @ js_remove_all ?J (t @ w2 @ ?F @ w3)"
    by (rule js_remove_all_other [OF J(1) nJ [OF w(2)]])
  also have "js_remove_all ?J (t @ w2 @ ?F @ w3) = T @ js_remove_all ?J (w2 @ ?F @ w3)"
    unfolding T_def
    by (rule js_remove_all_append) (use no_fence_json_across [OF w(3,4)] in blast)
  finally have step1:
    "js_remove_all ?J (w0 @ ?J @ w1 @ t @ w2 @ ?F @ w3) = w0 @ w1 @ T @ w2 @ ?F @ w3"
    by (simp add: tailJ)
  have "js_remove_all ?F (w0 @ w1 @ T @ w2 @ ?F @ w3) =
        (w0 @ w1) @ js_remove_all ?F ((T @ w2) @ ?F @ w3)"
    using js_remove_all_other [OF F(1), of "w0 @ w1" "(T @ w2) @ ?F @ w3"] nF [OF w(1)] nF [OF w(2)]
    by auto
  also have "js_remove_all ?F ((T @ w2) @ ?F @ w3) =
             js_remove_all ?F ((T @ w2) @ ?F) @ js_remove_all ?F w3"
    using js_remove_all_append [of ?F w3 "(T @ w2) @ ?F"] hdF [OF w(4)] by simp
  also have "js_remove_all ?F w3 = w3"
    by (rule js_remove_all_other_end [OF F(1) nF [OF w(4)]])
  also have "js_remove_all ?F ((T @ w2) @ ?F) = js_remove_all ?F (T @ w2)"
    using js_remove_all_trailing_match [of 3 "0x60" "T @ w2"] by (simp only: F(3))
  also have "js_remove_all ?F (T @ w2) = js_remove_all ?F T @ js_remove_all ?F w2"
    using js_remove_all_append [of ?F w2 T] hdF [OF w(3)] by simp
  also have "js_remove_all ?F w2 = w2"
    by (rule js_remove_all_other_end [OF F(1) nF [OF w(3)]])
  finally have step2:
    "js_remove_all ?F (w0 @ w1 @ T @ w2 @ ?F @ w3) = (w0 @ w1) @ (js_remove_all ?F T) @ (w2 @ w3)"
    by simp
  have ws: "\<forall>c\<in>set (w0 @ w1). js_whitespace c" "\<forall>c\<in>set (w2 @ w3). js_whitespace c"
    using w by auto
  have "js_trim ((w0 @ w1) @ (js_remove_all ?F T) @ (w2 @ w3)) = js_trim (js_remove_all ?F T)"
    using js_trim_leading [OF ws(1), of "js_remove_all ?F T @ (w2 @ w3)"]
      js_trim_trailing [OF ws(2), of "js_remove_all ?F T"]
    by simp
  moreover have "w0 @ ?J @ w1 @ t @ w2 @ ?F @ w3 \<noteq> []"
    using J(1) by simp
  ultimately show ?thesis
    using t step1 step2 by (simp add: cleanedText_def or_else_def truthy_str_def T_def)
qed

section \<open>Facts about the operations\<close>

lemma js_split_nonempty: "js_split sep s \<noteq> []"
  by (subst js_split.simps) simp

lemma split_data_uri_ok: "\<exists>d m. split_data_uri uri = Inr (d, m)"
  by (cases "js_split 0x2C uri") (auto simp: split_data_uri_def js_split_nonempty)

lemma scene_parts_ok: "\<exists>ps. scene_parts prompt ref = Inr ps"
proof -
  obtain d m where "split_data_uri (case ref of None \<Rightarrow> [] | Some r \<Rightarrow> r) = Inr (d, m)"
    using split_data_uri_ok by blast
  then show ?thesis
    by (auto simp: scene_parts_def split: option.splits)
qed

lemma getClient_cases:
  "getClient env apiKey = (Inl ApiKeyMissing, []) \<and> \<not> truthy_str apiKey \<and> \<not> truthy_str env \<or>
   (\<exists>k. k \<noteq> [] \<and> getClient env apiKey = (Inr (GoogleGenAI k), [NewClient k]))"
  by (auto simp: getClient_def Let_def ENV_API_KEY_def or_else_def truthy_str_def split: option.splits)

lemma getClient_explicit:
  "k \<noteq> [] \<Longrightarrow> getClient env (Some k) = (Inr (GoogleGenAI k), [NewClient k])"
  by (simp add: getClient_def or_else_def truthy_str_def)

lemma getClient_fallback:
  "\<not> truthy_str apiKey \<Longrightarrow> f \<noteq> [] \<Longrightarrow>
   getClient (Some f) apiKey = (Inr (GoogleGenAI f), [NewClient f])"
  by (simp add: getClient_def or_else_def ENV_API_KEY_def truthy_str_def)

lemma getClient_missing:
  "\<not> truthy_str apiKey \<Longrightarrow> \<not> truthy_str env \<Longrightarrow> getClient env apiKey = (Inl ApiKeyMissing, [])"
  by (auto simp: getClient_def or_else_def ENV_API_KEY_def truthy_str_def split: option.splits)

lemma generateSpeech_events:
  "getClient env apiKey = (Inr ai, evs) \<Longrightarrow>
   \<exists>r. snd (generateSpeech env remote text voice stylePrompt apiKey) =
        evs @ Request ai (speech_request text voice stylePrompt) # r"
  by (simp add: generateSpeech_def Let_def split: sum.splits)

lemma generateStoryboard_events:
  "getClient env apiKey = (Inr ai, evs) \<Longrightarrow>
   \<exists>r. snd (generateStoryboard env remote fullText apiKey) =
        evs @ Request ai (storyboard_request fullText) # r"
  by (simp add: generateStoryboard_def split: sum.splits)

lemma generateSceneImage_events:
  "getClient env apiKey = (Inr ai, evs) \<Longrightarrow>
   \<exists>ps r. snd (generateSceneImage env remote prompt ref apiKey) =
        evs @ Request ai (scene_request ps) # r"
proof -
  assume g: "getClient env apiKey = (Inr ai, evs)"
  obtain ps where "scene_parts prompt ref = Inr ps"
    using scene_parts_ok by blast
  with g show ?thesis
    by (auto simp: generateSceneImage_def Let_def split: sum.splits)
qed

lemma checkImageForCharacter_events:
  "getClient env apiKey = (Inr ai, evs) \<Longrightarrow>
   \<exists>d m r. snd (checkImageForCharacter env remote base64Image apiKey) =
        evs @ Request ai (character_request d m) # r"
proof -
  assume g: "getClient env apiKey = (Inr ai, evs)"
  obtain d m where s: "split_data_uri base64Image = Inr (d, m)"
    using split_data_uri_ok by blast
  from g have "\<not> (\<not> truthy_str apiKey \<and> ENV_API_KEY env = [])"
    by (auto simp: getClient_def Let_def or_else_def split: if_splits)
  with g s show ?thesis
    by (auto simp: checkImageForCharacter_def split: sum.splits)
qed

lemma getClient_guard:
  "getClient env apiKey = (Inr ai, evs) \<Longrightarrow> \<not> (\<not> truthy_str apiKey \<and> ENV_API_KEY env = [])"
  by (auto simp: getClient_def Let_def or_else_def split: if_splits)

lemma checkImageForCharacter_run:
  assumes "getClient env apiKey = (Inr ai, evs)" and "split_data_uri base64Image = Inr (d, m)"
  shows "fst (checkImageForCharacter env remote base64Image apiKey) =
         (case remote ai (character_request d m) of
            Inl e \<Rightarrow> Inr True
          | Inr r \<Rightarrow> (case character_answer r of Inl e \<Rightarrow> Inr True | Inr b \<Rightarrow> Inr b))"
  using assms getClient_guard [OF assms(1)]
  by (auto simp: checkImageForCharacter_def split: sum.splits)

lemma cleanedText_absent: "\<not> truthy_str t \<Longrightarrow> cleanedText t = js ''[]''"
proof -
  assume "\<not> truthy_str t"
  then have "or_else t (js ''[]'') = js ''[]''"
    by (simp add: or_else_def)
  moreover have "js_trim (js_remove_all (js ''```'') (js_remove_all (js ''```json'') (js ''[]''))) =
                 js ''[]''"
    by code_simp
  ultimately show ?thesis by (simp add: cleanedText_def)
qed

lemma JSON_parse_empty_array: "JSON_parse (js ''[]'') = Inr (JArray [])"
  by code_simp

lemma generateStoryboard_run:
  assumes "getClient env apiKey = (Inr ai, evs)"
  shows "fst (generateStoryboard env remote fullText apiKey) =
         (case remote ai (storyboard_request fullText) of
            Inl e \<Rightarrow> Inl e
          | Inr r \<Rightarrow> JSON_parse (cleanedText (response_text r)))"
  using assms by (simp add: generateStoryboard_def split: sum.splits)

lemma generateSpeech_run:
  assumes "getClient env apiKey = (Inr ai, evs)"
  shows "fst (generateSpeech env remote text voice stylePrompt apiKey) =
         (case remote ai (speech_request text voice stylePrompt) of
            Inl e \<Rightarrow> Inl e
          | Inr r \<Rightarrow>
              Inr (case index0 (Option.bind (Option.bind (index0 (candidates r)) content) parts) of
                     None \<Rightarrow> None
                   | Some p \<Rightarrow>
                       (case inlineData p of
                          None \<Rightarrow> None
                        | Some b \<Rightarrow> if truthy_str (data b) then data b else None)))"
  using assms by (simp add: generateSpeech_def Let_def split: sum.splits)

lemma response_parts_first:
  "candidates r = Some (c # cs) \<Longrightarrow> content c = Some ct \<Longrightarrow> parts ct = Some xs \<Longrightarrow>
   response_parts r = xs"
  by (simp add: response_parts_def index0_def)

lemma response_parts_cases:
  "response_parts r = [] \<or>
   (\<exists>c cs ct. candidates r = Some (c # cs) \<and> content c = Some ct \<and>
      parts ct = Some (response_parts r))"
  by (auto simp: response_parts_def index0_def split: option.splits list.splits Option.bind_splits)

lemma generateSceneImage_run:
  assumes "getClient env apiKey = (Inr ai, evs)" and "scene_parts prompt ref = Inr ps"
  shows "fst (generateSceneImage env remote prompt ref apiKey) =
         (case remote ai (scene_request ps) of
            Inl e \<Rightarrow> Inl e
          | Inr r \<Rightarrow> Inr (first_image (response_parts r)))"
  using assms by (simp add: generateSceneImage_def split: sum.splits)

lemma first_image_skip:
  "\<forall>q\<in>set pre. \<forall>b. inlineData q = Some b \<longrightarrow> \<not> truthy_str (data b) \<Longrightarrow>
   first_image (pre @ ps) = first_image ps"
  by (induction pre) (auto simp: truthy_str_def split: option.splits)

lemma first_image_none:
  "\<forall>q\<in>set ps. \<forall>b. inlineData q = Some b \<longrightarrow> \<not> truthy_str (data b) \<Longrightarrow>
   first_image ps = None"
  using first_image_skip [of ps "[]"] by simp

lemma first_image_found:
  "\<forall>q\<in>set pre. \<forall>b. inlineData q = Some b \<longrightarrow> \<not> truthy_str (data b) \<Longrightarrow>
   inlineData p = Some b \<Longrightarrow> data b = Some d \<Longrightarrow> d \<noteq> [] \<Longrightarrow>
   first_image (pre @ p # post) =
     Some (js ''data:'' @ or_else (mimeType b) (js ''image/png'') @ js '';base64,'' @ d)"
  by (simp add: first_image_skip)

lemma or_else_cases:
  "or_else v d = (case v of None \<Rightarrow> d | Some s \<Rightarrow> if s = [] then d else s)"
  by (simp add: or_else_def truthy_str_def split: option.splits)

lemma js_split_unfold:
  "js_split sep s =
     takeWhile (\<lambda>c. c \<noteq> sep) s #
       (case dropWhile (\<lambda>c. c \<noteq> sep) s of [] \<Rightarrow> [] | x # rest \<Rightarrow> js_split sep rest)"
  by (rule js_split.simps)

lemma js_split_none: "sep \<notin> set s \<Longrightarrow> js_split sep s = [s]"
proof -
  assume a: "sep \<notin> set s"
  then have t: "takeWhile (\<lambda>c. c \<noteq> sep) s = s" and d: "dropWhile (\<lambda>c. c \<noteq> sep) s = []"
    by auto
  show ?thesis
    unfolding js_split_unfold [of sep s] t d by simp
qed

lemma js_split_at:
  "sep \<notin> set h \<Longrightarrow> js_split sep (h @ sep # rest) = h # js_split sep rest"
proof -
  assume a: "sep \<notin> set h"
  then have "takeWhile (\<lambda>c. c \<noteq> sep) h = h"
    by auto
  then have t: "takeWhile (\<lambda>c. c \<noteq> sep) (h @ sep # rest) = h"
    by (simp add: takeWhile_tail)
  from a have "dropWhile (\<lambda>c. c \<noteq> sep) h = []"
    by auto
  then have d: "dropWhile (\<lambda>c. c \<noteq> sep) (h @ sep # rest) = sep # rest"
    by (simp add: dropWhile_append3)
  show ?thesis
    unfolding js_split_unfold [of sep "h @ sep # rest"] t d by simp
qed

lemma split_data_uri_none:
  "0x2C \<notin> set uri \<Longrightarrow>
   split_data_uri uri = Inr (None, or_else (match_colon_group_semicolon uri) (js ''image/png''))"
  by (simp add: split_data_uri_def js_split_none index0_def)

lemma split_data_uri_at:
  "0x2C \<notin> set header \<Longrightarrow>
   split_data_uri (header @ 0x2C # rest) =
     Inr (Some (takeWhile (\<lambda>c. c \<noteq> 0x2C) rest),
          or_else (match_colon_group_semicolon header) (js ''image/png''))"
  by (simp add: split_data_uri_def js_split_at index0_def js_split_unfold [of _ rest])

lemma lazy_dots_until_found:
  "stop \<notin> set m \<Longrightarrow> \<forall>c\<in>set m. \<not> LineTerminator c \<Longrightarrow>
   lazy_dots_until stop (m @ stop # rest) = Some m"
  by (induction m) auto

lemma match_data_header:
  assumes "0x3B \<notin> set m" and "\<forall>c\<in>set m. \<not> LineTerminator c"
  shows "match_colon_group_semicolon (js ''data:'' @ m @ 0x3B # rest) = Some m"
  using lazy_dots_until_found [OF assms, of rest]
  by (simp add: js_def)

lemma split_generated_uri:
  assumes m: "m \<noteq> []" "\<forall>c\<in>set m. c \<noteq> 0x2C \<and> c \<noteq> 0x3B \<and> \<not> LineTerminator c"
    and p: "0x2C \<notin> set p"
  shows "split_data_uri (js ''data:'' @ m @ js '';base64,'' @ p) = Inr (Some p, m)"
proof -
  let ?h = "js ''data:'' @ m @ js '';base64''"
  have u: "js ''data:'' @ m @ js '';base64,'' @ p = ?h @ 0x2C # p"
    by (simp add: js_def)
  from m(2) have h: "0x2C \<notin> set ?h"
    by (auto simp: js_def)
  from p have tw: "takeWhile (\<lambda>c. c \<noteq> 0x2C) p = p"
    by auto
  have "js '';base64'' = 0x3B # js ''base64''"
    by (simp add: js_def)
  then have "match_colon_group_semicolon ?h = Some m"
    using match_data_header [of m "js ''base64''"] m(2) by auto
  with m(1) have "or_else (match_colon_group_semicolon ?h) (js ''image/png'') = m"
    by (simp add: or_else_cases)
  with split_data_uri_at [OF h, of p] show ?thesis
    unfolding u tw by simp
qed

lemma generateStoryboard_same_text:
  assumes "cleanedText t1 = cleanedText t2"
  shows "generateStoryboard env (\<lambda>ai request. Inr ((response ai request)\<lparr>response_text := t1\<rparr>))
           fullText apiKey =
         generateStoryboard env (\<lambda>ai request. Inr ((response ai request)\<lparr>response_text := t2\<rparr>))
           fullText apiKey"
  using assms by (simp add: generateStoryboard_def split: prod.splits sum.splits)

lemma character_check_text:
  assumes "JSON_parse t = Inr v" and "t \<noteq> []"
  shows "fst (checkImageForCharacter None (remote_text (Some t)) (js ''data:image/png;base64,AAAA'')
           (Some (js ''my-key''))) =
         (case get_property v (js ''hasCharacter'') of
            Inl e \<Rightarrow> Inr True
          | Inr x \<Rightarrow> Inr (ToBoolean x))"
proof -
  let ?key = "js ''my-key''"
  have "?key \<noteq> []" by (simp add: js_def)
  then have g: "getClient None (Some ?key) = (Inr (GoogleGenAI ?key), [NewClient ?key])"
    by (rule getClient_explicit)
  obtain d m where s: "split_data_uri (js ''data:image/png;base64,AAAA'') = Inr (d, m)"
    using split_data_uri_ok by blast
  from assms show ?thesis
    by (simp add: checkImageForCharacter_run [OF g s] remote_text_def character_answer_def
        split: sum.splits)
qed

lemma lazy_dots_until_Some:
  "lazy_dots_until stop s = Some g \<Longrightarrow>
   \<exists>post. s = g @ stop # post \<and> stop \<notin> set g \<and> (\<forall>c\<in>set g. \<not> LineTerminator c)"
proof (induction s arbitrary: g)
  case Nil
  then show ?case by simp
next
  case (Cons c s)
  show ?case
  proof (cases "c = stop")
    case True
    with Cons.prems show ?thesis by simp
  next
    case False
    with Cons.prems obtain g' where g': "lazy_dots_until stop s = Some g'" "g = c # g'"
      and c: "\<not> LineTerminator c"
      by (auto split: if_splits)
    from Cons.IH [OF g'(1)] obtain post where
      "s = g' @ stop # post" "stop \<notin> set g'" "\<forall>c\<in>set g'. \<not> LineTerminator c"
      by blast
    with g'(2) c False show ?thesis by auto
  qed
qed

lemma lazy_dots_until_None:
  "lazy_dots_until stop s = None \<Longrightarrow>
   stop \<notin> set s \<or> (\<exists>c\<in>set (takeWhile (\<lambda>c. c \<noteq> stop) s). LineTerminator c)"
  by (induction s) (auto split: if_splits)

lemma match_colon_group_semicolon_spec:
  "(\<exists>pre g post.
      h = pre @ 0x3A # g @ 0x3B # post \<and> 0x3B \<notin> set g \<and> (\<forall>c\<in>set g. \<not> LineTerminator c) \<and>
      (\<forall>p1 p2. pre = p1 @ 0x3A # p2 \<longrightarrow>
         (\<exists>c\<in>set (takeWhile (\<lambda>c. c \<noteq> 0x3B) (p2 @ 0x3A # g)). LineTerminator c)) \<and>
      match_colon_group_semicolon h = Some g) \<or>
   ((\<forall>p1 rest. h = p1 @ 0x3A # rest \<longrightarrow>
       0x3B \<notin> set rest \<or>
       (\<exists>c\<in>set (takeWhile (\<lambda>c. c \<noteq> 0x3B) rest). LineTerminator c)) \<and>
    match_colon_group_semicolon h = None)"
  (is "?found h \<or> ?none h")
proof (induction h)
  case Nil
  then show ?case by simp
next
  case (Cons c h)
  show ?case
  proof (cases "c = 0x3A \<and> lazy_dots_until 0x3B h \<noteq> None")
    case True
    then obtain g where g: "lazy_dots_until 0x3B h = Some g" by auto
    from lazy_dots_until_Some [OF g] obtain post where
      p: "h = g @ 0x3B # post" "0x3B \<notin> set g" "\<forall>c\<in>set g. \<not> LineTerminator c"
      by blast
    from True g have "match_colon_group_semicolon (c # h) = Some g" by simp
    with p True have "?found (c # h)"
      by (intro exI [of _ "[]"] exI [of _ g] exI [of _ post]) simp
    then show ?thesis ..
  next
    case False
    then have m: "match_colon_group_semicolon (c # h) = match_colon_group_semicolon h"
      by (auto split: option.splits)
    have fails: "0x3B \<notin> set h \<or>
        (\<exists>x\<in>set (takeWhile (\<lambda>c. c \<noteq> 0x3B) h). LineTerminator x)" if "c = 0x3A"
      using False that lazy_dots_until_None [of "0x3B" h] by simp
    from Cons.IH show ?thesis
    proof
      assume "?found h"
      then obtain pre g post where
        f: "h = pre @ 0x3A # g @ 0x3B # post" "0x3B \<notin> set g" "\<forall>c\<in>set g. \<not> LineTerminator c"
          "\<forall>p1 p2. pre = p1 @ 0x3A # p2 \<longrightarrow>
             (\<exists>c\<in>set (takeWhile (\<lambda>c. c \<noteq> 0x3B) (p2 @ 0x3A # g)). LineTerminator c)"
          "match_colon_group_semicolon h = Some g"
        by blast
      have tw: "takeWhile (\<lambda>c. c \<noteq> 0x3B) h = takeWhile (\<lambda>c. c \<noteq> 0x3B) (pre @ 0x3A # g)"
        using takeWhile_tail [of "\<lambda>c. c \<noteq> 0x3B" "0x3B" "pre @ 0x3A # g" post] f(1) by simp
      have e: "\<exists>x\<in>set (takeWhile (\<lambda>c. c \<noteq> 0x3B) (p2 @ 0x3A # g)). LineTerminator x"
        if "c # pre = p1 @ 0x3A # p2" for p1 p2
      proof (cases p1)
        case Nil
        with that have "c = 0x3A" "p2 = pre" by simp_all
        with fails f(1) tw show ?thesis by auto
      next
        case (Cons a p1')
        with that have "pre = p1' @ 0x3A # p2" by simp
        with f(4) show ?thesis by blast
      qed
      have "c # h = (c # pre) @ 0x3A # g @ 0x3B # post"
        using f(1) by simp
      with f(2,3,5) m e have "?found (c # h)"
        by (intro exI [of _ "c # pre"] exI [of _ g] exI [of _ post]) auto
      then show ?thesis ..
    next
      assume n: "?none h"
      have "0x3B \<notin> set rest \<or>
          (\<exists>x\<in>set (takeWhile (\<lambda>c. c \<noteq> 0x3B) rest). LineTerminator x)"
        if "c # h = p1 @ 0x3A # rest" for p1 rest
      proof (cases p1)
        case Nil
        with that have "c = 0x3A" "rest = h" by simp_all
        with fails show ?thesis by simp
      next
        case (Cons a p1')
        with that have "h = p1' @ 0x3A # rest" by simp
        with n show ?thesis by blast
      qed
      with n m have "?none (c # h)" by simp
      then show ?thesis ..
    qed
  qed
qed


lemma split_data_uri_spec:
  "\<exists>header payload.
     split_data_uri r =
       Inr (payload, or_else (match_colon_group_semicolon header) (js ''image/png'')) \<and>
     (0x2C \<notin> set r \<and> header = r \<and> payload = None \<or>
      (\<exists>rest. r = header @ 0x2C # rest \<and> 0x2C \<notin> set header \<and>
         payload = Some (takeWhile (\<lambda>c. c \<noteq> 0x2C) rest)))"
proof (cases "0x2C \<in> set r")
  case True
  then obtain header rest where "r = header @ 0x2C # rest" "0x2C \<notin> set header"
    by (auto dest: split_list_first)
  then show ?thesis
    using split_data_uri_at [of header rest] by blast
next
  case False
  then show ?thesis
    using split_data_uri_none [of r] by blast
qed


lemma generateSceneImage_sent:
  assumes "getClient env apiKey = (Inr ai, evs)" and "scene_parts prompt ref = Inr ps"
  shows "\<exists>rest. snd (generateSceneImage env remote prompt ref apiKey) =
           evs @ Request ai (scene_request ps) # rest"
  using assms by (simp add: generateSceneImage_def split: sum.splits)

section \<open>The claims\<close>

text \<open>
  C1. Credential resolution is shared by all operations. A key given by the caller that
  is present and not empty is the key of the client; when it is absent or empty, the
  key read from the environment is; when both are absent or empty, speech synthesis,
  storyboard decomposition and scene-image generation fail with the error of
  \<open>getClient\<close> and send nothing. Each of the four operations, when \<open>getClient\<close>
  returns a client, constructs that client and sends its request through it.
\<close>

theorem credential_resolution:
  "(\<forall>k. apiKey = Some k \<and> k \<noteq> [] \<longrightarrow>
      getClient env apiKey = (Inr (GoogleGenAI k), [NewClient k])) \<and>
   (\<forall>f. \<not> truthy_str apiKey \<and> env = Some f \<and> f \<noteq> [] \<longrightarrow>
      getClient env apiKey = (Inr (GoogleGenAI f), [NewClient f])) \<and>
   (\<not> truthy_str apiKey \<and> \<not> truthy_str env \<longrightarrow>
      generateSpeech env remote text voice stylePrompt apiKey = (Inl ApiKeyMissing, []) \<and>
      generateStoryboard env remote fullText apiKey = (Inl ApiKeyMissing, []) \<and>
      generateSceneImage env remote prompt ref apiKey = (Inl ApiKeyMissing, [])) \<and>
   (\<forall>ai evs. getClient env apiKey = (Inr ai, evs) \<longrightarrow>
      (\<exists>r. snd (generateSpeech env remote text voice stylePrompt apiKey) =
           evs @ Request ai (speech_request text voice stylePrompt) # r) \<and>
      (\<exists>r. snd (generateStoryboard env remote fullText apiKey) =
           evs @ Request ai (storyboard_request fullText) # r) \<and>
      (\<exists>ps r. snd (generateSceneImage env remote prompt ref apiKey) =
           evs @ Request ai (scene_request ps) # r) \<and>
      (\<exists>d m r. snd (checkImageForCharacter env remote base64Image apiKey) =
           evs @ Request ai (character_request d m) # r))"
proof (intro conjI allI impI)
  fix k assume "apiKey = Some k \<and> k \<noteq> []"
  then show "getClient env apiKey = (Inr (GoogleGenAI k), [NewClient k])"
    by (simp add: getClient_explicit)
next
  fix f assume "\<not> truthy_str apiKey \<and> env = Some f \<and> f \<noteq> []"
  then show "getClient env apiKey = (Inr (GoogleGenAI f), [NewClient f])"
    by (simp add: getClient_fallback)
next
  assume a: "\<not> truthy_str apiKey \<and> \<not> truthy_str env"
  then have g: "getClient env apiKey = (Inl ApiKeyMissing, [])"
    by (simp add: getClient_missing)
  show "generateSpeech env remote text voice stylePrompt apiKey = (Inl ApiKeyMissing, [])"
    by (simp add: generateSpeech_def g)
  show "generateStoryboard env remote fullText apiKey = (Inl ApiKeyMissing, [])"
    by (simp add: generateStoryboard_def g)
  show "generateSceneImage env remote prompt ref apiKey = (Inl ApiKeyMissing, [])"
    by (simp add: generateSceneImage_def g)
next
  fix ai evs assume g: "getClient env apiKey = (Inr ai, evs)"
  show "\<exists>r. snd (generateSpeech env remote text voice stylePrompt apiKey) =
           evs @ Request ai (speech_request text voice stylePrompt) # r"
    by (rule generateSpeech_events [OF g])
  show "\<exists>r. snd (generateStoryboard env remote fullText apiKey) =
           evs @ Request ai (storyboard_request fullText) # r"
    by (rule generateStoryboard_events [OF g])
  show "\<exists>ps r. snd (generateSceneImage env remote prompt ref apiKey) =
           evs @ Request ai (scene_request ps) # r"
    by (rule generateSceneImage_events [OF g])
  show "\<exists>d m r. snd (checkImageForCharacter env remote base64Image apiKey) =
           evs @ Request ai (character_request d m) # r"
    by (rule checkImageForCharacter_events [OF g])
qed

theorem credential_resolution_witness:
  "getClient (Some (js ''env-key'')) (Some (js ''my-key'')) =
     (Inr (GoogleGenAI (js ''my-key'')), [NewClient (js ''my-key'')]) \<and>
   getClient (Some (js ''env-key'')) (Some []) =
     (Inr (GoogleGenAI (js ''env-key'')), [NewClient (js ''env-key'')]) \<and>
   getClient (Some (js ''env-key'')) None =
     (Inr (GoogleGenAI (js ''env-key'')), [NewClient (js ''env-key'')]) \<and>
   generateSpeech None remote_throws (js ''Hello'') (VoiceName (js ''Kore'')) (js ''calm'') (Some []) =
     (Inl ApiKeyMissing, []) \<and>
   generateStoryboard (Some []) remote_throws (js ''Once upon a time.'') None =
     (Inl ApiKeyMissing, []) \<and>
   generateSceneImage None remote_throws (js ''a red fox in snow'') None None =
     (Inl ApiKeyMissing, []) \<and>
   (\<exists>r. snd (generateStoryboard (Some (js ''env-key'')) remote_throws (js ''Once upon a time.'')
               (Some (js ''my-key''))) =
        NewClient (js ''my-key'') #
        Request (GoogleGenAI (js ''my-key'')) (storyboard_request (js ''Once upon a time.'')) # r)"
proof -
  have ne: "js ''my-key'' \<noteq> []" "js ''env-key'' \<noteq> []"
    by (simp_all add: js_def)
  have t: "\<not> truthy_str (Some [])" "\<not> truthy_str None"
    by (simp_all add: truthy_str_def)
  note a = credential_resolution [of "Some (js ''my-key'')" "Some (js ''env-key'')" remote_throws
      "js ''Hello''" "VoiceName (js ''Kore'')" "js ''calm''" "js ''Once upon a time.''"
      "js ''a red fox in snow''" None "[]"]
  note b = credential_resolution [of "Some []" "Some (js ''env-key'')"]
  note c = credential_resolution [of None "Some (js ''env-key'')"]
  note d = credential_resolution [of "Some []" None remote_throws
      "js ''Hello''" "VoiceName (js ''Kore'')" "js ''calm''"]
  note e = credential_resolution [of None "Some []" remote_throws _ _ _ "js ''Once upon a time.''"]
  note f = credential_resolution [of None None remote_throws _ _ _ _ "js ''a red fox in snow''" None]
  from a ne have 1: "getClient (Some (js ''env-key'')) (Some (js ''my-key'')) =
     (Inr (GoogleGenAI (js ''my-key'')), [NewClient (js ''my-key'')])"
    by simp
  with a have 7: "\<exists>r. snd (generateStoryboard (Some (js ''env-key'')) remote_throws
       (js ''Once upon a time.'') (Some (js ''my-key''))) =
        NewClient (js ''my-key'') #
        Request (GoogleGenAI (js ''my-key'')) (storyboard_request (js ''Once upon a time.'')) # r"
    by simp
  from b ne t have 2: "getClient (Some (js ''env-key'')) (Some []) =
     (Inr (GoogleGenAI (js ''env-key'')), [NewClient (js ''env-key'')])"
    by simp
  from c ne t have 3: "getClient (Some (js ''env-key'')) None =
     (Inr (GoogleGenAI (js ''env-key'')), [NewClient (js ''env-key'')])"
    by simp
  from d e f t 1 2 3 7 show ?thesis
    by simp
qed

text \<open>
  C2. With no key from the caller (absent or empty) and none from the environment, the
  character check returns \<open>true\<close> at once: no client is constructed, no request is
  sent and nothing is logged, whatever the image and the remote service.
\<close>

theorem character_check_without_key:
  "\<not> truthy_str apiKey \<Longrightarrow> \<not> truthy_str env \<Longrightarrow>
   checkImageForCharacter env remote base64Image apiKey = (Inr True, [])"
  by (auto simp: checkImageForCharacter_def ENV_API_KEY_def or_else_def)

theorem character_check_without_key_witness:
  "checkImageForCharacter None remote_throws (js ''data:image/png;base64,AAAA'') None =
     (Inr True, []) \<and>
   checkImageForCharacter (Some []) (remote_text (Some (js ''{}''))) [] (Some []) =
     (Inr True, [])"
  using character_check_without_key [of None None remote_throws "js ''data:image/png;base64,AAAA''"]
    character_check_without_key [of "Some []" "Some []" "remote_text (Some (js ''{}''))" "[]"]
  by (simp add: truthy_str_def)

text \<open>
  C3. The character check never throws. Whatever the environment, the key, the image and
  the remote service, its result is a boolean. When a client is constructed (the image
  always splits into a payload and a MIME type), the result is \<open>true\<close> if the remote
  call throws, if the response text is absent or empty, and if \<open>JSON.parse\<close> rejects
  the response text.
\<close>

theorem character_check_never_throws:
  "(\<exists>b. fst (checkImageForCharacter env remote base64Image apiKey) = Inr b) \<and>
   (\<forall>ai evs d m.
      getClient env apiKey = (Inr ai, evs) \<and> split_data_uri base64Image = Inr (d, m) \<longrightarrow>
      (\<forall>e. remote ai (character_request d m) = Inl e \<longrightarrow>
         fst (checkImageForCharacter env remote base64Image apiKey) = Inr True) \<and>
      (\<forall>r. remote ai (character_request d m) = Inr r \<and> \<not> truthy_str (response_text r) \<longrightarrow>
         fst (checkImageForCharacter env remote base64Image apiKey) = Inr True) \<and>
      (\<forall>r t e. remote ai (character_request d m) = Inr r \<and> response_text r = Some t \<and>
           JSON_parse t = Inl e \<longrightarrow>
         fst (checkImageForCharacter env remote base64Image apiKey) = Inr True))"
proof (intro conjI allI impI)
  show "\<exists>b. fst (checkImageForCharacter env remote base64Image apiKey) = Inr b"
  proof (cases "\<not> truthy_str apiKey \<and> ENV_API_KEY env = []")
    case True
    then show ?thesis by (auto simp: checkImageForCharacter_def)
  next
    case False
    then obtain k where g: "getClient env apiKey = (Inr (GoogleGenAI k), [NewClient k])"
      using getClient_cases [of env apiKey]
      by (auto simp: ENV_API_KEY_def or_else_def truthy_str_def split: option.splits)
    obtain d m where s: "split_data_uri base64Image = Inr (d, m)"
      using split_data_uri_ok by blast
    show ?thesis
      unfolding checkImageForCharacter_run [OF g s]
      by (auto split: sum.splits)
  qed
next
  fix ai evs d m e
  assume "getClient env apiKey = (Inr ai, evs) \<and> split_data_uri base64Image = Inr (d, m)"
    and "remote ai (character_request d m) = Inl e"
  then show "fst (checkImageForCharacter env remote base64Image apiKey) = Inr True"
    by (simp add: checkImageForCharacter_run)
next
  fix ai evs d m r
  assume "getClient env apiKey = (Inr ai, evs) \<and> split_data_uri base64Image = Inr (d, m)"
    and "remote ai (character_request d m) = Inr r \<and> \<not> truthy_str (response_text r)"
  then show "fst (checkImageForCharacter env remote base64Image apiKey) = Inr True"
    by (auto simp: checkImageForCharacter_run character_answer_def truthy_str_def
        split: option.splits)
next
  fix ai evs d m r t e
  assume "getClient env apiKey = (Inr ai, evs) \<and> split_data_uri base64Image = Inr (d, m)"
    and "remote ai (character_request d m) = Inr r \<and> response_text r = Some t \<and>
         JSON_parse t = Inl e"
  then show "fst (checkImageForCharacter env remote base64Image apiKey) = Inr True"
    by (simp add: checkImageForCharacter_run character_answer_def)
qed

theorem character_check_never_throws_witness:
  "fst (checkImageForCharacter None remote_throws (js ''data:image/png;base64,AAAA'')
         (Some (js ''my-key''))) = Inr True \<and>
   fst (checkImageForCharacter None (remote_text None) (js ''data:image/png;base64,AAAA'')
         (Some (js ''my-key''))) = Inr True \<and>
   fst (checkImageForCharacter None (remote_text (Some [])) (js ''data:image/png;base64,AAAA'')
         (Some (js ''my-key''))) = Inr True \<and>
   fst (checkImageForCharacter None (remote_text (Some (js ''not json'')))
         (js ''data:image/png;base64,AAAA'') (Some (js ''my-key''))) = Inr True"
proof -
  let ?img = "js ''data:image/png;base64,AAAA''" and ?key = "js ''my-key''"
  have "?key \<noteq> []" by (simp add: js_def)
  then have g: "getClient None (Some ?key) = (Inr (GoogleGenAI ?key), [NewClient ?key])"
    by (rule getClient_explicit)
  obtain d m where s: "split_data_uri ?img = Inr (d, m)"
    using split_data_uri_ok by blast
  have p: "JSON_parse (js ''not json'') = Inl SyntaxError"
    by code_simp
  note t = character_check_never_throws [of None _ ?img "Some ?key"]
  from t [of remote_throws] g s
  have 1: "fst (checkImageForCharacter None remote_throws ?img (Some ?key)) = Inr True"
    by (simp add: remote_throws_def)
  from t [of "remote_text None"] g s
  have 2: "fst (checkImageForCharacter None (remote_text None) ?img (Some ?key)) = Inr True"
    by (simp add: remote_text_def truthy_str_def)
  from t [of "remote_text (Some [])"] g s
  have 3: "fst (checkImageForCharacter None (remote_text (Some [])) ?img (Some ?key)) = Inr True"
    by (simp add: remote_text_def truthy_str_def)
  from t [of "remote_text (Some (js ''not json''))"] g s p
  have 4: "fst (checkImageForCharacter None (remote_text (Some (js ''not json''))) ?img (Some ?key)) =
           Inr True"
    by (simp add: remote_text_def)
  from 1 2 3 4 show ?thesis by simp
qed

text \<open>
  C4. Storyboard decomposition, once a client is constructed: an absent or empty
  response text is read as \<open>[]\<close> and the result is the empty array; when
  \<open>JSON.parse\<close> rejects the cleaned text, its error is the result; when it accepts,
  the parsed value is the result; an error thrown by the remote call is the result.
\<close>

theorem storyboard_response_handling:
  "\<forall>ai evs. getClient env apiKey = (Inr ai, evs) \<longrightarrow>
     (\<forall>r. remote ai (storyboard_request fullText) = Inr r \<and> \<not> truthy_str (response_text r) \<longrightarrow>
        fst (generateStoryboard env remote fullText apiKey) = Inr (JArray [])) \<and>
     (\<forall>r e. remote ai (storyboard_request fullText) = Inr r \<and>
          JSON_parse (cleanedText (response_text r)) = Inl e \<longrightarrow>
        fst (generateStoryboard env remote fullText apiKey) = Inl e) \<and>
     (\<forall>r v. remote ai (storyboard_request fullText) = Inr r \<and>
          JSON_parse (cleanedText (response_text r)) = Inr v \<longrightarrow>
        fst (generateStoryboard env remote fullText apiKey) = Inr v) \<and>
     (\<forall>e. remote ai (storyboard_request fullText) = Inl e \<longrightarrow>
        fst (generateStoryboard env remote fullText apiKey) = Inl e)"
  by (simp add: generateStoryboard_run cleanedText_absent JSON_parse_empty_array)

theorem storyboard_response_handling_witness:
  "fst (generateStoryboard None (remote_text None) (js ''Once.'') (Some (js ''my-key''))) =
     Inr (JArray []) \<and>
   fst (generateStoryboard None (remote_text (Some (js ''```json oops ```''))) (js ''Once.'')
         (Some (js ''my-key''))) = Inl SyntaxError \<and>
   fst (generateStoryboard None remote_throws (js ''Once.'') (Some (js ''my-key''))) =
     Inl (RemoteError (js ''503 Service Unavailable''))"
proof -
  let ?key = "js ''my-key''"
  have "?key \<noteq> []" by (simp add: js_def)
  then have g: "getClient None (Some ?key) = (Inr (GoogleGenAI ?key), [NewClient ?key])"
    by (rule getClient_explicit)
  have p: "JSON_parse (cleanedText (Some (js ''```json oops ```''))) = Inl SyntaxError"
    by code_simp
  note t = storyboard_response_handling [of None "Some ?key" _ "js ''Once.''"]
  from t [of "remote_text None"] g
  have 1: "fst (generateStoryboard None (remote_text None) (js ''Once.'') (Some ?key)) =
           Inr (JArray [])"
    by (simp add: remote_text_def truthy_str_def)
  from t [of "remote_text (Some (js ''```json oops ```''))"] g p
  have 2: "fst (generateStoryboard None (remote_text (Some (js ''```json oops ```''))) (js ''Once.'')
             (Some ?key)) = Inl SyntaxError"
    by (simp add: remote_text_def)
  from t [of remote_throws] g
  have 3: "fst (generateStoryboard None remote_throws (js ''Once.'') (Some ?key)) =
           Inl (RemoteError (js ''503 Service Unavailable''))"
    by (simp add: remote_throws_def)
  from 1 2 3 show ?thesis by simp
qed

text \<open>
  C9. Speech synthesis, once a client is constructed: an error thrown by the remote call
  is the result, unchanged; otherwise the result is read from the first part of the
  first candidate alone: its inline payload when it has one that is not empty, and
  \<open>null\<close> (a result, not an error) in every other case.
\<close>

theorem speech_response_extraction:
  "\<forall>ai evs. getClient env apiKey = (Inr ai, evs) \<longrightarrow>
     (\<forall>e. remote ai (speech_request text voice stylePrompt) = Inl e \<longrightarrow>
        fst (generateSpeech env remote text voice stylePrompt apiKey) = Inl e) \<and>
     (\<forall>r. remote ai (speech_request text voice stylePrompt) = Inr r \<longrightarrow>
        fst (generateSpeech env remote text voice stylePrompt apiKey) =
        Inr (case candidates r of
               Some (c # other_candidates) \<Rightarrow>
                 (case content c of
                    Some ct \<Rightarrow>
                      (case parts ct of
                         Some (p # other_parts) \<Rightarrow>
                           (case inlineData p of
                              Some b \<Rightarrow>
                                (case data b of
                                   Some d \<Rightarrow> if d = [] then None else Some d
                                 | None \<Rightarrow> None)
                            | None \<Rightarrow> None)
                       | _ \<Rightarrow> None)
                  | None \<Rightarrow> None)
             | _ \<Rightarrow> None))"
  by (auto simp: generateSpeech_run index0_def truthy_str_def split: option.splits list.splits)

theorem speech_response_extraction_witness:
  "fst (generateSpeech None
          (remote_parts [inline_part (Some (js ''UklGRg=='')) (js ''audio/L16''),
                         inline_part (Some (js ''AAAA'')) (js ''audio/L16'')])
          (js ''Hello'') (VoiceName (js ''Kore'')) (js ''calm'') (Some (js ''my-key''))) =
     Inr (Some (js ''UklGRg=='')) \<and>
   fst (generateSpeech None
          (remote_parts [text_part (js ''no audio''), inline_part (Some (js ''AAAA'')) (js ''audio/L16'')])
          (js ''Hello'') (VoiceName (js ''Kore'')) (js ''calm'') (Some (js ''my-key''))) =
     Inr None \<and>
   fst (generateSpeech None (remote_text None)
          (js ''Hello'') (VoiceName (js ''Kore'')) (js ''calm'') (Some (js ''my-key''))) =
     Inr None \<and>
   fst (generateSpeech None remote_throws
          (js ''Hello'') (VoiceName (js ''Kore'')) (js ''calm'') (Some (js ''my-key''))) =
     Inl (RemoteError (js ''503 Service Unavailable''))"
proof -
  let ?key = "js ''my-key''"
  have "?key \<noteq> []" by (simp add: js_def)
  then have g: "getClient None (Some ?key) = (Inr (GoogleGenAI ?key), [NewClient ?key])"
    by (rule getClient_explicit)
  have ne: "js ''UklGRg=='' \<noteq> []" by (simp add: js_def)
  note t = speech_response_extraction [of None "Some ?key" _ "js ''Hello''" "VoiceName (js ''Kore'')"
      "js ''calm''"]
  from t [of "remote_parts [inline_part (Some (js ''UklGRg=='')) (js ''audio/L16''),
                            inline_part (Some (js ''AAAA'')) (js ''audio/L16'')]"] g ne
  have 1: "fst (generateSpeech None
          (remote_parts [inline_part (Some (js ''UklGRg=='')) (js ''audio/L16''),
                         inline_part (Some (js ''AAAA'')) (js ''audio/L16'')])
          (js ''Hello'') (VoiceName (js ''Kore'')) (js ''calm'') (Some ?key)) =
     Inr (Some (js ''UklGRg==''))"
    by (simp add: remote_parts_def inline_part_def)
  from t [of "remote_parts [text_part (js ''no audio''),
                            inline_part (Some (js ''AAAA'')) (js ''audio/L16'')]"] g
  have 2: "fst (generateSpeech None
          (remote_parts [text_part (js ''no audio''), inline_part (Some (js ''AAAA'')) (js ''audio/L16'')])
          (js ''Hello'') (VoiceName (js ''Kore'')) (js ''calm'') (Some ?key)) =
     Inr None"
    by (simp add: remote_parts_def text_part_def)
  from t [of "remote_text None"] g
  have 3: "fst (generateSpeech None (remote_text None)
          (js ''Hello'') (VoiceName (js ''Kore'')) (js ''calm'') (Some ?key)) = Inr None"
    by (simp add: remote_text_def)
  from t [of remote_throws] g
  have 4: "fst (generateSpeech None remote_throws
          (js ''Hello'') (VoiceName (js ''Kore'')) (js ''calm'') (Some ?key)) =
     Inl (RemoteError (js ''503 Service Unavailable''))"
    by (simp add: remote_throws_def)
  from 1 2 3 4 show ?thesis by simp
qed

text \<open>
  C7. Scene-image generation, once a client is constructed and the remote call has
  answered: the parts of the first candidate are scanned in order, and the first part
  whose inline data has a payload that is not empty is the result, as the data URI of
  its MIME type (\<open>image/png\<close> when the MIME type is absent or empty) and its
  payload. When no part of the first candidate carries such data (also when there is
  no candidate, no content or no parts), the result is \<open>null\<close>, not an error.
\<close>

theorem scene_image_extraction:
  "\<forall>ai evs ps r. getClient env apiKey = (Inr ai, evs) \<and> scene_parts prompt ref = Inr ps \<and>
      remote ai (scene_request ps) = Inr r \<longrightarrow>
     (\<forall>c cs ct pre p post b d.
        candidates r = Some (c # cs) \<and> content c = Some ct \<and> parts ct = Some (pre @ p # post) \<and>
        (\<forall>q\<in>set pre. \<forall>b. inlineData q = Some b \<longrightarrow> \<not> truthy_str (data b)) \<and>
        inlineData p = Some b \<and> data b = Some d \<and> d \<noteq> [] \<longrightarrow>
        fst (generateSceneImage env remote prompt ref apiKey) =
          Inr (Some (js ''data:'' @
                     (case mimeType b of
                        None \<Rightarrow> js ''image/png''
                      | Some mt \<Rightarrow> if mt = [] then js ''image/png'' else mt) @
                     js '';base64,'' @ d))) \<and>
     ((\<forall>c cs ct xs.
         candidates r = Some (c # cs) \<and> content c = Some ct \<and> parts ct = Some xs \<longrightarrow>
         (\<forall>q\<in>set xs. \<forall>b. inlineData q = Some b \<longrightarrow> \<not> truthy_str (data b))) \<longrightarrow>
      fst (generateSceneImage env remote prompt ref apiKey) = Inr None)"
proof (intro allI impI conjI)
  fix ai evs ps r c cs ct pre p post b d
  assume a: "getClient env apiKey = (Inr ai, evs) \<and> scene_parts prompt ref = Inr ps \<and>
      remote ai (scene_request ps) = Inr r"
    and b: "candidates r = Some (c # cs) \<and> content c = Some ct \<and>
        parts ct = Some (pre @ p # post) \<and>
        (\<forall>q\<in>set pre. \<forall>b. inlineData q = Some b \<longrightarrow> \<not> truthy_str (data b)) \<and>
        inlineData p = Some b \<and> data b = Some d \<and> d \<noteq> []"
  from b have "response_parts r = pre @ p # post"
    by (simp add: response_parts_first)
  with b have "first_image (response_parts r) =
      Some (js ''data:'' @ or_else (mimeType b) (js ''image/png'') @ js '';base64,'' @ d)"
    by (simp add: first_image_found)
  with a show "fst (generateSceneImage env remote prompt ref apiKey) =
          Inr (Some (js ''data:'' @
                     (case mimeType b of
                        None \<Rightarrow> js ''image/png''
                      | Some mt \<Rightarrow> if mt = [] then js ''image/png'' else mt) @
                     js '';base64,'' @ d))"
    by (simp add: generateSceneImage_run or_else_cases)
next
  fix ai evs ps r
  assume a: "getClient env apiKey = (Inr ai, evs) \<and> scene_parts prompt ref = Inr ps \<and>
      remote ai (scene_request ps) = Inr r"
    and b: "\<forall>c cs ct xs.
         candidates r = Some (c # cs) \<and> content c = Some ct \<and> parts ct = Some xs \<longrightarrow>
         (\<forall>q\<in>set xs. \<forall>b. inlineData q = Some b \<longrightarrow> \<not> truthy_str (data b))"
  have "\<forall>q\<in>set (response_parts r). \<forall>b. inlineData q = Some b \<longrightarrow> \<not> truthy_str (data b)"
    using response_parts_cases [of r] b by fastforce
  then have "first_image (response_parts r) = None"
    by (rule first_image_none)
  with a show "fst (generateSceneImage env remote prompt ref apiKey) = Inr None"
    by (simp add: generateSceneImage_run)
qed

theorem scene_image_extraction_witness:
  "fst (generateSceneImage None
          (remote_parts [text_part (js ''Here is your image.''),
                         \<lparr>inlineData = Some \<lparr>data = Some [], mimeType = Some (js ''image/gif'')\<rparr>,
                          part_text = None\<rparr>,
                         \<lparr>inlineData = Some \<lparr>data = Some (js ''iVBORw0KGgo=''), mimeType = None\<rparr>,
                          part_text = None\<rparr>,
                         inline_part (Some (js ''AAAA'')) (js ''image/jpeg'')])
          (js ''a red fox in snow'') None (Some (js ''my-key''))) =
     Inr (Some (js ''data:image/png;base64,iVBORw0KGgo='')) \<and>
   fst (generateSceneImage None
          (remote_parts [inline_part (Some (js ''AAAA'')) (js ''image/jpeg'')])
          (js ''a red fox in snow'') None (Some (js ''my-key''))) =
     Inr (Some (js ''data:image/jpeg;base64,AAAA'')) \<and>
   fst (generateSceneImage None (remote_parts [text_part (js ''I cannot draw that.'')])
          (js ''a red fox in snow'') None (Some (js ''my-key''))) = Inr None \<and>
   fst (generateSceneImage None (remote_text None)
          (js ''a red fox in snow'') None (Some (js ''my-key''))) = Inr None"
proof -
  let ?key = "js ''my-key''" and ?prompt = "js ''a red fox in snow''"
  let ?p1 = "text_part (js ''Here is your image.'')"
  let ?p2 = "\<lparr>inlineData = Some \<lparr>data = Some [], mimeType = Some (js ''image/gif'')\<rparr>,
             part_text = None\<rparr>"
  let ?p3 = "\<lparr>inlineData = Some \<lparr>data = Some (js ''iVBORw0KGgo=''), mimeType = None\<rparr>,
             part_text = None\<rparr>"
  let ?p4 = "inline_part (Some (js ''AAAA'')) (js ''image/jpeg'')"
  have "?key \<noteq> []" by (simp add: js_def)
  then have g: "getClient None (Some ?key) = (Inr (GoogleGenAI ?key), [NewClient ?key])"
    by (rule getClient_explicit)
  have s: "scene_parts ?prompt None = Inr [text_part ?prompt]"
    by (simp add: scene_parts_def)
  have ne: "js ''iVBORw0KGgo='' \<noteq> []" "js ''AAAA'' \<noteq> []" "js ''image/jpeg'' \<noteq> []"
    by (simp_all add: js_def)
  have u: "js ''data:'' @ js ''image/png'' @ js '';base64,'' @ js ''iVBORw0KGgo='' =
           js ''data:image/png;base64,iVBORw0KGgo=''"
    "js ''data:'' @ js ''image/jpeg'' @ js '';base64,'' @ js ''AAAA'' =
           js ''data:image/jpeg;base64,AAAA''"
    by (simp_all add: js_def)
  note t = scene_image_extraction [of None "Some ?key" ?prompt None]
  have 1: "fst (generateSceneImage None (remote_parts [?p1, ?p2, ?p3, ?p4]) ?prompt None (Some ?key)) =
           Inr (Some (js ''data:image/png;base64,iVBORw0KGgo=''))"
  proof -
    from t [of "remote_parts [?p1, ?p2, ?p3, ?p4]", rule_format, THEN conjunct1, rule_format,
        of "GoogleGenAI ?key" _ "[text_part ?prompt]" _
           "\<lparr>content = Some \<lparr>parts = Some [?p1, ?p2, ?p3, ?p4]\<rparr>\<rparr>" "[]"
           "\<lparr>parts = Some [?p1, ?p2, ?p3, ?p4]\<rparr>" "[?p1, ?p2]" ?p3 "[?p4]"
           "\<lparr>data = Some (js ''iVBORw0KGgo=''), mimeType = None\<rparr>" "js ''iVBORw0KGgo=''"]
      g s ne u
    show ?thesis
      by (simp add: remote_parts_def text_part_def truthy_str_def)
  qed
  have 2: "fst (generateSceneImage None (remote_parts [?p4]) ?prompt None (Some ?key)) =
           Inr (Some (js ''data:image/jpeg;base64,AAAA''))"
  proof -
    from t [of "remote_parts [?p4]", rule_format, THEN conjunct1, rule_format,
        of "GoogleGenAI ?key" _ "[text_part ?prompt]" _
           "\<lparr>content = Some \<lparr>parts = Some [?p4]\<rparr>\<rparr>" "[]"
           "\<lparr>parts = Some [?p4]\<rparr>" "[]" ?p4 "[]"
           "\<lparr>data = Some (js ''AAAA''), mimeType = Some (js ''image/jpeg'')\<rparr>" "js ''AAAA''"]
      g s ne u
    show ?thesis
      by (simp add: remote_parts_def inline_part_def)
  qed
  have 3: "fst (generateSceneImage None (remote_parts [text_part (js ''I cannot draw that.'')])
             ?prompt None (Some ?key)) = Inr None"
    using t [of "remote_parts [text_part (js ''I cannot draw that.'')]"] g s
    by (simp add: remote_parts_def text_part_def)
  have 4: "fst (generateSceneImage None (remote_text None) ?prompt None (Some ?key)) = Inr None"
    using t [of "remote_text None"] g s
    by (simp add: remote_text_def)
  from 1 2 3 4 show ?thesis by simp
qed

text \<open>
  C8, as stated, fails for a reference image with a second comma: the payload sent is
  the text between the first comma and the second, not all the text after the first
  comma.
\<close>

theorem scene_request_shaping_counterexample:
  "scene_parts (js ''a red fox in snow'') (Some (js ''data:image/png;base64,AA,BB'')) =
     Inr [\<lparr>inlineData = Some \<lparr>data = Some (js ''AA''), mimeType = Some (js ''image/png'')\<rparr>,
           part_text = None\<rparr>,
          \<lparr>inlineData = None, part_text = Some (js ''Adopt the artistic style, color palette, and mood of the reference image provided above. Generate a new scene based on this description: '' @ js ''a red fox in snow'')\<rparr>] \<and>
   js ''AA'' \<noteq> js ''AA,BB'' \<and>
   snd (generateSceneImage None remote_throws (js ''a red fox in snow'')
          (Some (js ''data:image/png;base64,AA,BB'')) (Some (js ''my-key''))) =
     [NewClient (js ''my-key''),
      Request (GoogleGenAI (js ''my-key''))
        \<lparr>model = js ''gemini-2.5-flash-image'',
         contents = ContentObject
           \<lparr>parts = Some
              [\<lparr>inlineData = Some \<lparr>data = Some (js ''AA''), mimeType = Some (js ''image/png'')\<rparr>,
                part_text = None\<rparr>,
               \<lparr>inlineData = None, part_text = Some (js ''Adopt the artistic style, color palette, and mood of the reference image provided above. Generate a new scene based on this description: '' @ js ''a red fox in snow'')\<rparr>]\<rparr>,
         config =
           \<lparr>systemInstruction = None, responseModalities = None, voiceName = None,
            responseMimeType = None, responseSchema = None,
            aspectRatio = Some (js ''9:16'')\<rparr>\<rparr>,
      ConsoleError (js ''Error generating scene image:'')
        (RemoteError (js ''503 Service Unavailable''))]"
  by code_simp

text \<open>
  C8, amended. The request of scene-image generation, for every prompt and reference.
  Without a reference image (absent or empty) the parts are the prompt alone, as
  text, with no inline data. With a reference image the parts are the image as inline
  data, followed by the instruction \<open>Adopt the artistic style, color palette, and mood of
  the reference image provided above. Generate a new scene based on this description:\<close>
  and the prompt. The header is the text of the reference before its first comma (all
  of it when there is no comma). The payload is the text between the first comma and
  the next comma or the end (\<open>undefined\<close> when there is no comma). The MIME type is
  read at the leftmost colon of the header from which a semicolon is reached without a
  line terminator in between: it is the text between that colon and the next
  semicolon, or \<open>image/png\<close> when that text is empty or the header has no such
  colon. The request that is sent carries exactly these parts, the model
  \<open>gemini-2.5-flash-image\<close> and the aspect ratio \<open>9:16\<close>.
\<close>

theorem scene_request_shaping:
  "((ref = None \<or> ref = Some []) \<longrightarrow>
      scene_parts prompt ref = Inr [\<lparr>inlineData = None, part_text = Some prompt\<rparr>]) \<and>
   (\<forall>r. ref = Some r \<and> r \<noteq> [] \<longrightarrow>
      (\<exists>header payload mime.
         scene_parts prompt ref =
           Inr [\<lparr>inlineData = Some \<lparr>data = payload, mimeType = Some mime\<rparr>, part_text = None\<rparr>,
                \<lparr>inlineData = None,
                 part_text = Some (js ''Adopt the artistic style, color palette, and mood of the reference image provided above. Generate a new scene based on this description: '' @ prompt)\<rparr>] \<and>
         (0x2C \<notin> set r \<and> header = r \<and> payload = None \<or>
          (\<exists>rest. r = header @ 0x2C # rest \<and> 0x2C \<notin> set header \<and>
             payload = Some (takeWhile (\<lambda>c. c \<noteq> 0x2C) rest))) \<and>
         ((\<exists>pre g post.
             header = pre @ 0x3A # g @ 0x3B # post \<and> 0x3B \<notin> set g \<and>
             (\<forall>c\<in>set g. c \<notin> {0x0A, 0x0D, 0x2028, 0x2029}) \<and>
             (\<forall>p1 p2. pre = p1 @ 0x3A # p2 \<longrightarrow>
                (\<exists>c\<in>set (takeWhile (\<lambda>c. c \<noteq> 0x3B) (p2 @ 0x3A # g)).
                   c \<in> {0x0A, 0x0D, 0x2028, 0x2029})) \<and>
             mime = (if g = [] then js ''image/png'' else g)) \<or>
          ((\<forall>p1 rest. header = p1 @ 0x3A # rest \<longrightarrow>
              0x3B \<notin> set rest \<or>
              (\<exists>c\<in>set (takeWhile (\<lambda>c. c \<noteq> 0x3B) rest). c \<in> {0x0A, 0x0D, 0x2028, 0x2029})) \<and>
           mime = js ''image/png'')))) \<and>
   (\<exists>ps. scene_parts prompt ref = Inr ps \<and>
      (\<forall>ai evs. getClient env apiKey = (Inr ai, evs) \<longrightarrow>
         (\<exists>rest. snd (generateSceneImage env remote prompt ref apiKey) =
            evs @
            Request ai
              \<lparr>model = js ''gemini-2.5-flash-image'',
               contents = ContentObject \<lparr>parts = Some ps\<rparr>,
               config =
                 \<lparr>systemInstruction = None, responseModalities = None, voiceName = None,
                  responseMimeType = None, responseSchema = None,
                  aspectRatio = Some (js ''9:16'')\<rparr>\<rparr> # rest)))"
proof (intro conjI)
  show "(ref = None \<or> ref = Some []) \<longrightarrow>
      scene_parts prompt ref = Inr [\<lparr>inlineData = None, part_text = Some prompt\<rparr>]"
    by (auto simp: scene_parts_def text_part_def)
next
  let ?LT = "{0x0A, 0x0D, 0x2028, 0x2029} :: jschar set"
  let ?png = "js ''image/png''"
  let ?found = "\<lambda>header mime. \<exists>pre g post.
             header = pre @ 0x3A # g @ 0x3B # post \<and> 0x3B \<notin> set g \<and>
             (\<forall>c\<in>set g. c \<notin> ?LT) \<and>
             (\<forall>p1 p2. pre = p1 @ 0x3A # p2 \<longrightarrow>
                (\<exists>c\<in>set (takeWhile (\<lambda>c. c \<noteq> 0x3B) (p2 @ 0x3A # g)). c \<in> ?LT)) \<and>
             mime = (if g = [] then ?png else g)"
  let ?none = "\<lambda>header mime. (\<forall>p1 rest. header = p1 @ 0x3A # rest \<longrightarrow>
              0x3B \<notin> set rest \<or>
              (\<exists>c\<in>set (takeWhile (\<lambda>c. c \<noteq> 0x3B) rest). c \<in> ?LT)) \<and>
           mime = ?png"
  have lt: "LineTerminator c \<longleftrightarrow> c \<in> ?LT" for c
    by (auto simp: LineTerminator_def)
  have mime: "?found header (or_else (match_colon_group_semicolon header) ?png) \<or>
              ?none header (or_else (match_colon_group_semicolon header) ?png)" for header
    using match_colon_group_semicolon_spec [of header]
  proof (elim disjE exE conjE)
    fix pre g post
    assume f: "header = pre @ 0x3A # g @ 0x3B # post" "0x3B \<notin> set g"
      "\<forall>c\<in>set g. \<not> LineTerminator c"
      "\<forall>p1 p2. pre = p1 @ 0x3A # p2 \<longrightarrow>
         (\<exists>c\<in>set (takeWhile (\<lambda>c. c \<noteq> 0x3B) (p2 @ 0x3A # g)). LineTerminator c)"
      "match_colon_group_semicolon header = Some g"
    from f(5) have "or_else (match_colon_group_semicolon header) ?png = (if g = [] then ?png else g)"
      by (simp add: or_else_cases)
    with f(1-4) have "?found header (or_else (match_colon_group_semicolon header) ?png)"
      unfolding lt by (intro exI [of _ pre] exI [of _ g] exI [of _ post] conjI)
    then show ?thesis ..
  next
    assume n: "\<forall>p1 rest. header = p1 @ 0x3A # rest \<longrightarrow>
        0x3B \<notin> set rest \<or>
        (\<exists>c\<in>set (takeWhile (\<lambda>c. c \<noteq> 0x3B) rest). LineTerminator c)"
      "match_colon_group_semicolon header = None"
    from n(2) have "or_else (match_colon_group_semicolon header) ?png = ?png"
      by (simp add: or_else_cases)
    with n(1) have "?none header (or_else (match_colon_group_semicolon header) ?png)"
      unfolding lt by (intro conjI)
    then show ?thesis ..
  qed
  show "\<forall>r. ref = Some r \<and> r \<noteq> [] \<longrightarrow>
      (\<exists>header payload mime.
         scene_parts prompt ref =
           Inr [\<lparr>inlineData = Some \<lparr>data = payload, mimeType = Some mime\<rparr>, part_text = None\<rparr>,
                \<lparr>inlineData = None, part_text = Some (js ''Adopt the artistic style, color palette, and mood of the reference image provided above. Generate a new scene based on this description: '' @ prompt)\<rparr>] \<and>
         (0x2C \<notin> set r \<and> header = r \<and> payload = None \<or>
          (\<exists>rest. r = header @ 0x2C # rest \<and> 0x2C \<notin> set header \<and>
             payload = Some (takeWhile (\<lambda>c. c \<noteq> 0x2C) rest))) \<and>
         (?found header mime \<or> ?none header mime))"
  proof (intro allI impI)
    fix r
    assume r: "ref = Some r \<and> r \<noteq> []"
    from split_data_uri_spec [of r] obtain header payload where
      sp: "split_data_uri r =
             Inr (payload, or_else (match_colon_group_semicolon header) ?png)"
      and cut: "0x2C \<notin> set r \<and> header = r \<and> payload = None \<or>
        (\<exists>rest. r = header @ 0x2C # rest \<and> 0x2C \<notin> set header \<and>
           payload = Some (takeWhile (\<lambda>c. c \<noteq> 0x2C) rest))"
      by (elim exE conjE)
    let ?mime = "or_else (match_colon_group_semicolon header) ?png"
    from r sp have parts: "scene_parts prompt ref =
        Inr [\<lparr>inlineData = Some \<lparr>data = payload, mimeType = Some ?mime\<rparr>, part_text = None\<rparr>,
             \<lparr>inlineData = None, part_text = Some (js ''Adopt the artistic style, color palette, and mood of the reference image provided above. Generate a new scene based on this description: '' @ prompt)\<rparr>]"
      by (simp add: scene_parts_def inline_part_def text_part_def style_instruction_def)
    show "\<exists>header payload mime.
         scene_parts prompt ref =
           Inr [\<lparr>inlineData = Some \<lparr>data = payload, mimeType = Some mime\<rparr>, part_text = None\<rparr>,
                \<lparr>inlineData = None, part_text = Some (js ''Adopt the artistic style, color palette, and mood of the reference image provided above. Generate a new scene based on this description: '' @ prompt)\<rparr>] \<and>
         (0x2C \<notin> set r \<and> header = r \<and> payload = None \<or>
          (\<exists>rest. r = header @ 0x2C # rest \<and> 0x2C \<notin> set header \<and>
             payload = Some (takeWhile (\<lambda>c. c \<noteq> 0x2C) rest))) \<and>
         (?found header mime \<or> ?none header mime)"
    proof (rule exI [of _ header], rule exI [of _ payload], rule exI [of _ ?mime], intro conjI)
      show "scene_parts prompt ref =
        Inr [\<lparr>inlineData = Some \<lparr>data = payload, mimeType = Some ?mime\<rparr>, part_text = None\<rparr>,
             \<lparr>inlineData = None, part_text = Some (js ''Adopt the artistic style, color palette, and mood of the reference image provided above. Generate a new scene based on this description: '' @ prompt)\<rparr>]"
        by (rule parts)
      show "0x2C \<notin> set r \<and> header = r \<and> payload = None \<or>
        (\<exists>rest. r = header @ 0x2C # rest \<and> 0x2C \<notin> set header \<and>
           payload = Some (takeWhile (\<lambda>c. c \<noteq> 0x2C) rest))"
        by (rule cut)
      show "?found header ?mime \<or> ?none header ?mime"
        by (rule mime)
    qed
  qed
next
  obtain ps where ps: "scene_parts prompt ref = Inr ps"
    using scene_parts_ok [of prompt ref] by blast
  let ?request = "\<lambda>ps.
              \<lparr>model = js ''gemini-2.5-flash-image'',
               contents = ContentObject \<lparr>parts = Some ps\<rparr>,
               config =
                 \<lparr>systemInstruction = None, responseModalities = None, voiceName = None,
                  responseMimeType = None, responseSchema = None,
                  aspectRatio = Some (js ''9:16'')\<rparr>\<rparr>"
  have rq: "scene_request ps = ?request ps"
    by (simp add: scene_request_def no_config_def)
  have sent: "\<forall>ai evs. getClient env apiKey = (Inr ai, evs) \<longrightarrow>
      (\<exists>rest. snd (generateSceneImage env remote prompt ref apiKey) =
         evs @ Request ai (?request ps) # rest)"
  proof (intro allI impI)
    fix ai evs
    assume g: "getClient env apiKey = (Inr ai, evs)"
    from generateSceneImage_sent [OF g ps, of remote]
    show "\<exists>rest. snd (generateSceneImage env remote prompt ref apiKey) =
         evs @ Request ai (?request ps) # rest"
      unfolding rq .
  qed
  show "\<exists>ps. scene_parts prompt ref = Inr ps \<and>
      (\<forall>ai evs. getClient env apiKey = (Inr ai, evs) \<longrightarrow>
         (\<exists>rest. snd (generateSceneImage env remote prompt ref apiKey) =
            evs @ Request ai (?request ps) # rest))"
    by (rule exI [of _ ps], rule conjI, rule ps, rule sent)
qed

theorem scene_request_shaping_witness:
  "scene_parts (js ''a red fox in snow'') None =
     Inr [\<lparr>inlineData = None, part_text = Some (js ''a red fox in snow'')\<rparr>] \<and>
   scene_parts (js ''a red fox in snow'') (Some []) =
     Inr [\<lparr>inlineData = None, part_text = Some (js ''a red fox in snow'')\<rparr>] \<and>
   scene_parts (js ''a red fox in snow'') (Some (js ''data:image/jpeg;base64,iVBORw0KGgo='')) =
     Inr [\<lparr>inlineData = Some \<lparr>data = Some (js ''iVBORw0KGgo=''), mimeType = Some (js ''image/jpeg'')\<rparr>,
           part_text = None\<rparr>,
          \<lparr>inlineData = None, part_text = Some (js ''Adopt the artistic style, color palette, and mood of the reference image provided above. Generate a new scene based on this description: '' @ js ''a red fox in snow'')\<rparr>] \<and>
   (\<exists>header.
      (\<exists>rest. js ''data:image/jpeg;base64,iVBORw0KGgo='' = header @ 0x2C # rest \<and>
         0x2C \<notin> set header \<and>
         Some (js ''iVBORw0KGgo='') = Some (takeWhile (\<lambda>c. c \<noteq> 0x2C) rest)) \<and>
      (\<exists>pre g post.
         header = pre @ 0x3A # g @ 0x3B # post \<and> 0x3B \<notin> set g \<and>
         (\<forall>c\<in>set g. c \<notin> {0x0A, 0x0D, 0x2028, 0x2029}) \<and>
         (\<forall>p1 p2. pre = p1 @ 0x3A # p2 \<longrightarrow>
            (\<exists>c\<in>set (takeWhile (\<lambda>c. c \<noteq> 0x3B) (p2 @ 0x3A # g)).
               c \<in> {0x0A, 0x0D, 0x2028, 0x2029})) \<and>
         js ''image/jpeg'' = (if g = [] then js ''image/png'' else g))) \<and>
   (\<exists>rest. snd (generateSceneImage None remote_throws (js ''a red fox in snow'')
                  (Some (js ''data:image/jpeg;base64,iVBORw0KGgo='')) (Some (js ''my-key''))) =
      [NewClient (js ''my-key'')] @
      Request (GoogleGenAI (js ''my-key''))
        \<lparr>model = js ''gemini-2.5-flash-image'',
         contents = ContentObject
           \<lparr>parts = Some
              [\<lparr>inlineData = Some \<lparr>data = Some (js ''iVBORw0KGgo=''),
                                    mimeType = Some (js ''image/jpeg'')\<rparr>,
                part_text = None\<rparr>,
               \<lparr>inlineData = None, part_text = Some (js ''Adopt the artistic style, color palette, and mood of the reference image provided above. Generate a new scene based on this description: '' @ js ''a red fox in snow'')\<rparr>]\<rparr>,
         config =
           \<lparr>systemInstruction = None, responseModalities = None, voiceName = None,
            responseMimeType = None, responseSchema = None,
            aspectRatio = Some (js ''9:16'')\<rparr>\<rparr> # rest)"
proof -
  let ?P = "js ''a red fox in snow''" and ?R = "js ''data:image/jpeg;base64,iVBORw0KGgo=''"
  let ?key = "js ''my-key''"
  let ?parts = "[\<lparr>inlineData = Some \<lparr>data = Some (js ''iVBORw0KGgo=''), mimeType = Some (js ''image/jpeg'')\<rparr>,
           part_text = None\<rparr>,
          \<lparr>inlineData = None, part_text = Some (js ''Adopt the artistic style, color palette, and mood of the reference image provided above. Generate a new scene based on this description: '' @ ?P)\<rparr>]"
  have "?key \<noteq> []" by (simp add: js_def)
  then have g: "getClient None (Some ?key) = (Inr (GoogleGenAI ?key), [NewClient ?key])"
    by (rule getClient_explicit)
  have ne: "?R \<noteq> []" and comma: "0x2C \<in> set ?R" and jp: "js ''image/jpeg'' \<noteq> js ''image/png''"
    by (simp_all add: js_def)
  have ev: "scene_parts ?P (Some ?R) = Inr ?parts"
    by code_simp
  from scene_request_shaping [of None ?P, THEN conjunct1]
  have 1: "scene_parts ?P None = Inr [\<lparr>inlineData = None, part_text = Some ?P\<rparr>]"
    by simp
  from scene_request_shaping [of "Some []" ?P, THEN conjunct1]
  have 2: "scene_parts ?P (Some []) = Inr [\<lparr>inlineData = None, part_text = Some ?P\<rparr>]"
    by simp
  from scene_request_shaping [of "Some ?R" ?P, THEN conjunct2, THEN conjunct1, rule_format, of ?R,
      OF conjI [OF refl ne]]
  obtain header where "\<exists>payload mime.
         (scene_parts ?P (Some ?R) =
           Inr [\<lparr>inlineData = Some \<lparr>data = payload, mimeType = Some mime\<rparr>, part_text = None\<rparr>,
                \<lparr>inlineData = None, part_text = Some (js ''Adopt the artistic style, color palette, and mood of the reference image provided above. Generate a new scene based on this description: '' @ ?P)\<rparr>]) \<and>
         (0x2C \<notin> set ?R \<and> header = ?R \<and> payload = None \<or>
          (\<exists>rest. ?R = header @ 0x2C # rest \<and> 0x2C \<notin> set header \<and>
             payload = Some (takeWhile (\<lambda>c. c \<noteq> 0x2C) rest))) \<and>
         ((\<exists>pre g post.
             header = pre @ 0x3A # g @ 0x3B # post \<and> 0x3B \<notin> set g \<and>
             (\<forall>c\<in>set g. c \<notin> {0x0A, 0x0D, 0x2028, 0x2029}) \<and>
             (\<forall>p1 p2. pre = p1 @ 0x3A # p2 \<longrightarrow>
                (\<exists>c\<in>set (takeWhile (\<lambda>c. c \<noteq> 0x3B) (p2 @ 0x3A # g)).
                   c \<in> {0x0A, 0x0D, 0x2028, 0x2029})) \<and>
             mime = (if g = [] then js ''image/png'' else g)) \<or>
          ((\<forall>p1 rest. header = p1 @ 0x3A # rest \<longrightarrow>
              0x3B \<notin> set rest \<or>
              (\<exists>c\<in>set (takeWhile (\<lambda>c. c \<noteq> 0x3B) rest). c \<in> {0x0A, 0x0D, 0x2028, 0x2029})) \<and>
           mime = js ''image/png''))" ..
  then obtain payload where "\<exists>mime.
         (scene_parts ?P (Some ?R) =
           Inr [\<lparr>inlineData = Some \<lparr>data = payload, mimeType = Some mime\<rparr>, part_text = None\<rparr>,
                \<lparr>inlineData = None, part_text = Some (js ''Adopt the artistic style, color palette, and mood of the reference image provided above. Generate a new scene based on this description: '' @ ?P)\<rparr>]) \<and>
         (0x2C \<notin> set ?R \<and> header = ?R \<and> payload = None \<or>
          (\<exists>rest. ?R = header @ 0x2C # rest \<and> 0x2C \<notin> set header \<and>
             payload = Some (takeWhile (\<lambda>c. c \<noteq> 0x2C) rest))) \<and>
         ((\<exists>pre g post.
             header = pre @ 0x3A # g @ 0x3B # post \<and> 0x3B \<notin> set g \<and>
             (\<forall>c\<in>set g. c \<notin> {0x0A, 0x0D, 0x2028, 0x2029}) \<and>
             (\<forall>p1 p2. pre = p1 @ 0x3A # p2 \<longrightarrow>
                (\<exists>c\<in>set (takeWhile (\<lambda>c. c \<noteq> 0x3B) (p2 @ 0x3A # g)).
                   c \<in> {0x0A, 0x0D, 0x2028, 0x2029})) \<and>
             mime = (if g = [] then js ''image/png'' else g)) \<or>
          ((\<forall>p1 rest. header = p1 @ 0x3A # rest \<longrightarrow>
              0x3B \<notin> set rest \<or>
              (\<exists>c\<in>set (takeWhile (\<lambda>c. c \<noteq> 0x3B) rest). c \<in> {0x0A, 0x0D, 0x2028, 0x2029})) \<and>
           mime = js ''image/png''))" ..
  then obtain mime where all: "
         (scene_parts ?P (Some ?R) =
           Inr [\<lparr>inlineData = Some \<lparr>data = payload, mimeType = Some mime\<rparr>, part_text = None\<rparr>,
                \<lparr>inlineData = None, part_text = Some (js ''Adopt the artistic style, color palette, and mood of the reference image provided above. Generate a new scene based on this description: '' @ ?P)\<rparr>]) \<and>
         (0x2C \<notin> set ?R \<and> header = ?R \<and> payload = None \<or>
          (\<exists>rest. ?R = header @ 0x2C # rest \<and> 0x2C \<notin> set header \<and>
             payload = Some (takeWhile (\<lambda>c. c \<noteq> 0x2C) rest))) \<and>
         ((\<exists>pre g post.
             header = pre @ 0x3A # g @ 0x3B # post \<and> 0x3B \<notin> set g \<and>
             (\<forall>c\<in>set g. c \<notin> {0x0A, 0x0D, 0x2028, 0x2029}) \<and>
             (\<forall>p1 p2. pre = p1 @ 0x3A # p2 \<longrightarrow>
                (\<exists>c\<in>set (takeWhile (\<lambda>c. c \<noteq> 0x3B) (p2 @ 0x3A # g)).
                   c \<in> {0x0A, 0x0D, 0x2028, 0x2029})) \<and>
             mime = (if g = [] then js ''image/png'' else g)) \<or>
          ((\<forall>p1 rest. header = p1 @ 0x3A # rest \<longrightarrow>
              0x3B \<notin> set rest \<or>
              (\<exists>c\<in>set (takeWhile (\<lambda>c. c \<noteq> 0x3B) rest). c \<in> {0x0A, 0x0D, 0x2028, 0x2029})) \<and>
           mime = js ''image/png''))" ..
  from all have pe: "scene_parts ?P (Some ?R) =
           Inr [\<lparr>inlineData = Some \<lparr>data = payload, mimeType = Some mime\<rparr>, part_text = None\<rparr>,
                \<lparr>inlineData = None, part_text = Some (js ''Adopt the artistic style, color palette, and mood of the reference image provided above. Generate a new scene based on this description: '' @ ?P)\<rparr>]"
    by (rule conjunct1)
  from all have cut: "0x2C \<notin> set ?R \<and> header = ?R \<and> payload = None \<or>
          (\<exists>rest. ?R = header @ 0x2C # rest \<and> 0x2C \<notin> set header \<and>
             payload = Some (takeWhile (\<lambda>c. c \<noteq> 0x2C) rest))"
    by (rule conjunct2 [THEN conjunct1])
  from all have ms: "(\<exists>pre g post.
             header = pre @ 0x3A # g @ 0x3B # post \<and> 0x3B \<notin> set g \<and>
             (\<forall>c\<in>set g. c \<notin> {0x0A, 0x0D, 0x2028, 0x2029}) \<and>
             (\<forall>p1 p2. pre = p1 @ 0x3A # p2 \<longrightarrow>
                (\<exists>c\<in>set (takeWhile (\<lambda>c. c \<noteq> 0x3B) (p2 @ 0x3A # g)).
                   c \<in> {0x0A, 0x0D, 0x2028, 0x2029})) \<and>
             mime = (if g = [] then js ''image/png'' else g)) \<or>
          ((\<forall>p1 rest. header = p1 @ 0x3A # rest \<longrightarrow>
              0x3B \<notin> set rest \<or>
              (\<exists>c\<in>set (takeWhile (\<lambda>c. c \<noteq> 0x3B) rest). c \<in> {0x0A, 0x0D, 0x2028, 0x2029})) \<and>
           mime = js ''image/png'')"
    by (rule conjunct2 [THEN conjunct2])
  from pe ev have pm: "payload = Some (js ''iVBORw0KGgo='')" "mime = js ''image/jpeg''"
    by simp_all
  from cut comma have 3: "\<exists>rest. ?R = header @ 0x2C # rest \<and> 0x2C \<notin> set header \<and>
         Some (js ''iVBORw0KGgo='') = Some (takeWhile (\<lambda>c. c \<noteq> 0x2C) rest)"
    unfolding pm by (elim disjE conjE) simp_all
  from ms have 4: "\<exists>pre g post.
         header = pre @ 0x3A # g @ 0x3B # post \<and> 0x3B \<notin> set g \<and>
         (\<forall>c\<in>set g. c \<notin> {0x0A, 0x0D, 0x2028, 0x2029}) \<and>
         (\<forall>p1 p2. pre = p1 @ 0x3A # p2 \<longrightarrow>
            (\<exists>c\<in>set (takeWhile (\<lambda>c. c \<noteq> 0x3B) (p2 @ 0x3A # g)).
               c \<in> {0x0A, 0x0D, 0x2028, 0x2029})) \<and>
         js ''image/jpeg'' = (if g = [] then js ''image/png'' else g)"
    unfolding pm
  proof (elim disjE)
    assume "(\<forall>p1 rest. header = p1 @ 0x3A # rest \<longrightarrow>
              0x3B \<notin> set rest \<or>
              (\<exists>c\<in>set (takeWhile (\<lambda>c. c \<noteq> 0x3B) rest). c \<in> {0x0A, 0x0D, 0x2028, 0x2029})) \<and>
           js ''image/jpeg'' = js ''image/png''"
    with jp show ?thesis by simp
  qed
  from scene_request_shaping [of "Some ?R" ?P None "Some ?key" remote_throws, THEN conjunct2, THEN conjunct2]
  obtain ps where both: "(scene_parts ?P (Some ?R) = Inr ps) \<and>
      (\<forall>ai evs. getClient None (Some ?key) = (Inr ai, evs) \<longrightarrow>
         (\<exists>rest. snd (generateSceneImage None remote_throws ?P (Some ?R) (Some ?key)) =
            evs @
            Request ai
              \<lparr>model = js ''gemini-2.5-flash-image'',
               contents = ContentObject \<lparr>parts = Some ps\<rparr>,
               config =
                 \<lparr>systemInstruction = None, responseModalities = None, voiceName = None,
                  responseMimeType = None, responseSchema = None,
                  aspectRatio = Some (js ''9:16'')\<rparr>\<rparr> # rest))" ..
  from both have ps: "scene_parts ?P (Some ?R) = Inr ps"
    by (rule conjunct1)
  from both have sent: "\<forall>ai evs. getClient None (Some ?key) = (Inr ai, evs) \<longrightarrow>
         (\<exists>rest. snd (generateSceneImage None remote_throws ?P (Some ?R) (Some ?key)) =
            evs @
            Request ai
              \<lparr>model = js ''gemini-2.5-flash-image'',
               contents = ContentObject \<lparr>parts = Some ps\<rparr>,
               config =
                 \<lparr>systemInstruction = None, responseModalities = None, voiceName = None,
                  responseMimeType = None, responseSchema = None,
                  aspectRatio = Some (js ''9:16'')\<rparr>\<rparr> # rest)"
    by (rule conjunct2)
  from ps ev have "ps = ?parts" by simp
  with sent [rule_format, OF g]
  have 5: "\<exists>rest. snd (generateSceneImage None remote_throws ?P (Some ?R) (Some ?key)) =
      [NewClient ?key] @
      Request (GoogleGenAI ?key)
        \<lparr>model = js ''gemini-2.5-flash-image'',
         contents = ContentObject \<lparr>parts = Some ?parts\<rparr>,
         config =
           \<lparr>systemInstruction = None, responseModalities = None, voiceName = None,
            responseMimeType = None, responseSchema = None,
            aspectRatio = Some (js ''9:16'')\<rparr>\<rparr> # rest"
    by simp
  have 6: "\<exists>header.
      (\<exists>rest. ?R = header @ 0x2C # rest \<and> 0x2C \<notin> set header \<and>
         Some (js ''iVBORw0KGgo='') = Some (takeWhile (\<lambda>c. c \<noteq> 0x2C) rest)) \<and>
      (\<exists>pre g post.
         header = pre @ 0x3A # g @ 0x3B # post \<and> 0x3B \<notin> set g \<and>
         (\<forall>c\<in>set g. c \<notin> {0x0A, 0x0D, 0x2028, 0x2029}) \<and>
         (\<forall>p1 p2. pre = p1 @ 0x3A # p2 \<longrightarrow>
            (\<exists>c\<in>set (takeWhile (\<lambda>c. c \<noteq> 0x3B) (p2 @ 0x3A # g)).
               c \<in> {0x0A, 0x0D, 0x2028, 0x2029})) \<and>
         js ''image/jpeg'' = (if g = [] then js ''image/png'' else g))"
    by (rule exI [of _ header], rule conjI [OF 3 4])
  show ?thesis
    by (intro conjI) (rule 1, rule 2, rule ev, rule 6, rule 5)
qed

text \<open>
  C5, as stated, fails for the empty response text: alone it is read as \<open>[]\<close> and
  the result is the empty array, while inside fences the cleaned text is empty and
  \<open>JSON.parse\<close> throws.
\<close>

theorem fenced_storyboard_text_counterexample:
  "fst (generateStoryboard None (remote_text (Some [])) (js ''He ran.'') (Some (js ''my-key''))) =
     Inr (JArray []) \<and>
   fst (generateStoryboard None
          (remote_text (Some (js ''```json'' @ [0x0A] @ [] @ [0x0A] @ js ''```'')))
          (js ''He ran.'') (Some (js ''my-key''))) =
     Inl SyntaxError"
proof -
  let ?key = "js ''my-key''"
  have "?key \<noteq> []" by (simp add: js_def)
  then have g: "getClient None (Some ?key) = (Inr (GoogleGenAI ?key), [NewClient ?key])"
    by (rule getClient_explicit)
  have a: "JSON_parse (cleanedText (Some [])) = Inr (JArray [])"
    by code_simp
  have b: "JSON_parse (cleanedText (Some (js ''```json'' @ [0x0A] @ [] @ [0x0A] @ js ''```''))) =
           Inl SyntaxError"
    by code_simp
  from g a b show ?thesis
    by (simp add: generateStoryboard_run remote_text_def)
qed

text \<open>
  C5, amended. For every response text \<open>t\<close> that is not empty and all white space
  \<open>w0\<close>, \<open>w1\<close>, \<open>w2\<close>, \<open>w3\<close> (each possibly empty), storyboard decomposition of a
  response whose text is \<open>t\<close> between the fence \<open>```json\<close> and the fence \<open>```\<close>,
  with the white space around the fences, has the same outcome (result and events) as
  of the same response with the text \<open>t\<close> alone.
\<close>

theorem fenced_storyboard_text:
  assumes "t \<noteq> []"
    and "\<forall>c\<in>set (w0 @ w1 @ w2 @ w3). js_whitespace c"
  shows "generateStoryboard env
           (\<lambda>ai request. Inr ((response ai request)
              \<lparr>response_text := Some (w0 @ js ''```json'' @ w1 @ t @ w2 @ js ''```'' @ w3)\<rparr>))
           fullText apiKey =
         generateStoryboard env
           (\<lambda>ai request. Inr ((response ai request)\<lparr>response_text := Some t\<rparr>))
           fullText apiKey"
proof (rule generateStoryboard_same_text)
  from assms(2) have "\<forall>c\<in>set w0. js_whitespace c" "\<forall>c\<in>set w1. js_whitespace c"
    "\<forall>c\<in>set w2. js_whitespace c" "\<forall>c\<in>set w3. js_whitespace c"
    by auto
  with assms(1)
  show "cleanedText (Some (w0 @ js ''```json'' @ w1 @ t @ w2 @ js ''```'' @ w3)) =
        cleanedText (Some t)"
    by (rule cleanedText_fenced)
qed

theorem fenced_storyboard_text_witness:
  "generateStoryboard None
     (remote_text (Some (js ''```json'' @ [0x0A] @
        js ''[{\"narrativeText\": \"He ran.\", \"imagePrompt\": \"A man running, low angle\"}]'' @
        [0x0A] @ js ''```'' @ [0x0A])))
     (js ''He ran.'') (Some (js ''my-key'')) =
   generateStoryboard None
     (remote_text (Some
        (js ''[{\"narrativeText\": \"He ran.\", \"imagePrompt\": \"A man running, low angle\"}]'')))
     (js ''He ran.'') (Some (js ''my-key'')) \<and>
   fst (generateStoryboard None
     (remote_text (Some
        (js ''[{\"narrativeText\": \"He ran.\", \"imagePrompt\": \"A man running, low angle\"}]'')))
     (js ''He ran.'') (Some (js ''my-key''))) =
   Inr (JArray [JObject [(js ''narrativeText'', JString (js ''He ran.'')),
                         (js ''imagePrompt'', JString (js ''A man running, low angle''))]])"
proof -
  let ?t = "js ''[{\"narrativeText\": \"He ran.\", \"imagePrompt\": \"A man running, low angle\"}]''"
  let ?key = "js ''my-key''"
  have ne: "?t \<noteq> []" by (simp add: js_def)
  have ws: "\<forall>c\<in>set ([] @ [0x0A] @ [0x0A] @ [0x0A]). js_whitespace c"
    by (simp add: js_whitespace_def)
  have r: "remote_text x = (\<lambda>ai request. Inr ((\<lambda>ai request. \<lparr>candidates = None, response_text = None\<rparr>) ai request
              \<lparr>response_text := x\<rparr>))" for x
    by (simp add: remote_text_def fun_eq_iff)
  have "?key \<noteq> []" by (simp add: js_def)
  then have g: "getClient None (Some ?key) = (Inr (GoogleGenAI ?key), [NewClient ?key])"
    by (rule getClient_explicit)
  have p: "JSON_parse (cleanedText (Some ?t)) =
           Inr (JArray [JObject [(js ''narrativeText'', JString (js ''He ran.'')),
                                 (js ''imagePrompt'', JString (js ''A man running, low angle''))]])"
    by code_simp
  have 2: "fst (generateStoryboard None (remote_text (Some ?t)) (js ''He ran.'') (Some ?key)) =
           Inr (JArray [JObject [(js ''narrativeText'', JString (js ''He ran.'')),
                                 (js ''imagePrompt'', JString (js ''A man running, low angle''))]])"
    using g p by (simp add: generateStoryboard_run remote_text_def)
  from fenced_storyboard_text [OF ne ws, of None
      "\<lambda>ai request. \<lparr>candidates = None, response_text = None\<rparr>" "js ''He ran.''" "Some ?key"]
  have 1: "generateStoryboard None
     (remote_text (Some (js ''```json'' @ [0x0A] @ ?t @ [0x0A] @ js ''```'' @ [0x0A])))
     (js ''He ran.'') (Some ?key) =
   generateStoryboard None (remote_text (Some ?t)) (js ''He ran.'') (Some ?key)"
    unfolding r by simp
  from 1 2 show ?thesis by simp
qed

text \<open>
  C6, as stated, fails for a MIME type with a parameter: the generated data URI keeps
  the whole MIME type, and reading it back as a reference image gives the part before
  the first semicolon.
\<close>

theorem data_uri_round_trip_counterexample:
  "fst (generateSceneImage None
          (remote_parts [inline_part (Some (js ''PHN2Zz48L3N2Zz4='')) (js ''image/svg+xml;charset=utf-8'')])
          (js ''a red fox in snow'') None (Some (js ''my-key''))) =
     Inr (Some (js ''data:image/svg+xml;charset=utf-8;base64,PHN2Zz48L3N2Zz4='')) \<and>
   scene_parts (js ''the same fox at night'')
       (Some (js ''data:image/svg+xml;charset=utf-8;base64,PHN2Zz48L3N2Zz4='')) =
     Inr [inline_part (Some (js ''PHN2Zz48L3N2Zz4='')) (js ''image/svg+xml''),
          text_part (style_instruction (js ''the same fox at night''))] \<and>
   js ''image/svg+xml'' \<noteq> js ''image/svg+xml;charset=utf-8''"
  by code_simp

text \<open>
  C6, amended. Let scene-image generation return the data URI of a part with MIME type
  \<open>m\<close> (\<open>image/png\<close> when the part has none) and payload \<open>p\<close>. When \<open>m\<close> has no
  comma, no semicolon and no line terminator, and \<open>p\<close> has no comma, that data URI
  given as the reference image of a later call is sent as inline data with exactly the
  MIME type \<open>m\<close> and the payload \<open>p\<close>.
\<close>

theorem data_uri_round_trip:
  assumes "getClient env apiKey = (Inr ai, evs)"
    and "scene_parts prompt ref = Inr ps"
    and "remote ai (scene_request ps) = Inr r"
    and "response_parts r = pre @ part # post"
    and "\<forall>q\<in>set pre. \<forall>b. inlineData q = Some b \<longrightarrow> \<not> truthy_str (data b)"
    and "inlineData part = Some b" and "data b = Some p" and "p \<noteq> []"
    and "m = (case mimeType b of None \<Rightarrow> js ''image/png''
              | Some mt \<Rightarrow> if mt = [] then js ''image/png'' else mt)"
    and "\<forall>c\<in>set m. c \<noteq> 0x2C \<and> c \<noteq> 0x3B \<and> \<not> LineTerminator c"
    and "0x2C \<notin> set p"
  shows "fst (generateSceneImage env remote prompt ref apiKey) =
           Inr (Some (js ''data:'' @ m @ js '';base64,'' @ p)) \<and>
         scene_parts prompt' (Some (js ''data:'' @ m @ js '';base64,'' @ p)) =
           Inr [inline_part (Some p) m, text_part (style_instruction prompt')]"
proof
  from assms(4-8) have "first_image (response_parts r) =
      Some (js ''data:'' @ or_else (mimeType b) (js ''image/png'') @ js '';base64,'' @ p)"
    by (simp add: first_image_found)
  with assms(1-3,9) show "fst (generateSceneImage env remote prompt ref apiKey) =
      Inr (Some (js ''data:'' @ m @ js '';base64,'' @ p))"
    by (simp add: generateSceneImage_run or_else_cases)
next
  have "js ''image/png'' \<noteq> []"
    by (simp add: js_def)
  with assms(9) have "m \<noteq> []"
    by (simp split: option.splits)
  from split_generated_uri [OF this assms(10,11)]
  show "scene_parts prompt' (Some (js ''data:'' @ m @ js '';base64,'' @ p)) =
      Inr [inline_part (Some p) m, text_part (style_instruction prompt')]"
    by (simp add: scene_parts_def js_def)
qed


theorem data_uri_round_trip_witness:
  "fst (generateSceneImage None
          (remote_parts [text_part (js ''Here is your image.''),
                         inline_part (Some (js ''iVBORw0KGgo='')) (js ''image/jpeg'')])
          (js ''a red fox in snow'') None (Some (js ''my-key''))) =
     Inr (Some (js ''data:image/jpeg;base64,iVBORw0KGgo='')) \<and>
   scene_parts (js ''the same fox at night'') (Some (js ''data:image/jpeg;base64,iVBORw0KGgo='')) =
     Inr [inline_part (Some (js ''iVBORw0KGgo='')) (js ''image/jpeg''),
          text_part (style_instruction (js ''the same fox at night''))]"
proof -
  let ?key = "js ''my-key''" and ?prompt = "js ''a red fox in snow''"
  let ?p1 = "text_part (js ''Here is your image.'')"
  let ?p2 = "inline_part (Some (js ''iVBORw0KGgo='')) (js ''image/jpeg'')"
  have "?key \<noteq> []" by (simp add: js_def)
  then have g: "getClient None (Some ?key) = (Inr (GoogleGenAI ?key), [NewClient ?key])"
    by (rule getClient_explicit)
  have s: "scene_parts ?prompt None = Inr [text_part ?prompt]"
    by (simp add: scene_parts_def)
  have r: "remote_parts [?p1, ?p2] (GoogleGenAI ?key) (scene_request [text_part ?prompt]) =
           Inr \<lparr>candidates = Some [\<lparr>content = Some \<lparr>parts = Some [?p1, ?p2]\<rparr>\<rparr>],
                response_text = None\<rparr>"
    by (simp add: remote_parts_def)
  have rp: "response_parts \<lparr>candidates = Some [\<lparr>content = Some \<lparr>parts = Some [?p1, ?p2]\<rparr>\<rparr>],
                response_text = None\<rparr> = [?p1] @ ?p2 # []"
    by (simp add: response_parts_def index0_def)
  have pre: "\<forall>q\<in>set [?p1]. \<forall>b. inlineData q = Some b \<longrightarrow> \<not> truthy_str (data b)"
    by (simp add: text_part_def)
  have b: "inlineData ?p2 = Some \<lparr>data = Some (js ''iVBORw0KGgo=''), mimeType = Some (js ''image/jpeg'')\<rparr>"
    by (simp add: inline_part_def)
  have d: "data \<lparr>data = Some (js ''iVBORw0KGgo=''), mimeType = Some (js ''image/jpeg'')\<rparr> =
           Some (js ''iVBORw0KGgo='')"
    by simp
  have ne: "js ''iVBORw0KGgo='' \<noteq> []"
    by (simp add: js_def)
  have m: "js ''image/jpeg'' =
      (case mimeType \<lparr>data = Some (js ''iVBORw0KGgo=''), mimeType = Some (js ''image/jpeg'')\<rparr> of
         None \<Rightarrow> js ''image/png''
       | Some mt \<Rightarrow> if mt = [] then js ''image/png'' else mt)"
    by (simp add: js_def)
  have cm: "\<forall>c\<in>set (js ''image/jpeg''). c \<noteq> 0x2C \<and> c \<noteq> 0x3B \<and> \<not> LineTerminator c"
    by (simp add: js_def LineTerminator_def)
  have cp: "0x2C \<notin> set (js ''iVBORw0KGgo='')"
    by (simp add: js_def)
  have u: "js ''data:'' @ js ''image/jpeg'' @ js '';base64,'' @ js ''iVBORw0KGgo='' =
           js ''data:image/jpeg;base64,iVBORw0KGgo=''"
    by (simp add: js_def)
  from data_uri_round_trip [where remote = "remote_parts [?p1, ?p2]"
      and prompt' = "js ''the same fox at night''", OF g s r rp pre b d ne m cm cp]
  show ?thesis
    unfolding u .
qed

text \<open>
  C10, as stated, fails for the response text \<open>null\<close>: the parsed value has no
  \<open>hasCharacter\<close> field, reading the field of \<open>null\<close> throws, and the result is
  \<open>true\<close>.
\<close>

theorem character_answer_coercion_counterexample:
  "JSON_parse (js ''null'') = Inr JNull \<and>
   fst (checkImageForCharacter None (remote_text (Some (js ''null'')))
          (js ''data:image/png;base64,AAAA'') (Some (js ''my-key''))) = Inr True"
proof -
  have p: "JSON_parse (js ''null'') = Inr JNull"
    by code_simp
  have "js ''null'' \<noteq> []"
    by (simp add: js_def)
  from character_check_text [OF p this] p show ?thesis
    by simp
qed

text \<open>
  C10, amended. When the response text is not empty and parses to a value other than
  \<open>null\<close>, the result of the character check is the truthiness of the
  \<open>hasCharacter\<close> field of that value, with no check that it is a boolean: \<open>false\<close>
  when the value is not an object or has no such field and when the field is
  \<open>false\<close>, \<open>0\<close>, \<open>null\<close> or the empty string; \<open>true\<close> for every other field value,
  such as the string \<open>"false"\<close> or the number \<open>1\<close>.
\<close>

theorem character_answer_coercion:
  assumes "getClient env apiKey = (Inr ai, evs)"
    and "split_data_uri base64Image = Inr (d, m)"
    and "remote ai (character_request d m) = Inr r"
    and "response_text r = Some t" and "t \<noteq> []"
    and "JSON_parse t = Inr v" and "v \<noteq> JNull"
  shows "fst (checkImageForCharacter env remote base64Image apiKey) =
         Inr (ToBoolean (case v of
                           JObject ms \<Rightarrow> map_of (rev ms) (js ''hasCharacter'')
                         | _ \<Rightarrow> None))"
proof -
  from assms(7) have "get_property v (js ''hasCharacter'') =
      Inr (case v of JObject ms \<Rightarrow> map_of (rev ms) (js ''hasCharacter'') | _ \<Rightarrow> None)"
    by (cases v) simp_all
  with assms(3-6) show ?thesis
    by (simp add: checkImageForCharacter_run [OF assms(1,2)] character_answer_def)
qed

theorem character_answer_coercion_witness:
  "fst (checkImageForCharacter None (remote_text (Some (js ''{\"hasCharacter\": \"false\"}'')))
          (js ''data:image/png;base64,AAAA'') (Some (js ''my-key''))) = Inr True \<and>
   fst (checkImageForCharacter None (remote_text (Some (js ''{\"hasCharacter\": 1}'')))
          (js ''data:image/png;base64,AAAA'') (Some (js ''my-key''))) = Inr True \<and>
   fst (checkImageForCharacter None (remote_text (Some (js ''{\"hasCharacter\": true}'')))
          (js ''data:image/png;base64,AAAA'') (Some (js ''my-key''))) = Inr True \<and>
   fst (checkImageForCharacter None (remote_text (Some (js ''{}'')))
          (js ''data:image/png;base64,AAAA'') (Some (js ''my-key''))) = Inr False \<and>
   fst (checkImageForCharacter None (remote_text (Some (js ''{\"hasCharacter\": false}'')))
          (js ''data:image/png;base64,AAAA'') (Some (js ''my-key''))) = Inr False \<and>
   fst (checkImageForCharacter None (remote_text (Some (js ''{\"hasCharacter\": 0}'')))
          (js ''data:image/png;base64,AAAA'') (Some (js ''my-key''))) = Inr False \<and>
   fst (checkImageForCharacter None (remote_text (Some (js ''{\"hasCharacter\": null}'')))
          (js ''data:image/png;base64,AAAA'') (Some (js ''my-key''))) = Inr False \<and>
   fst (checkImageForCharacter None (remote_text (Some (js ''{\"hasCharacter\": \"\"}'')))
          (js ''data:image/png;base64,AAAA'') (Some (js ''my-key''))) = Inr False \<and>
   fst (checkImageForCharacter None (remote_text (Some (js ''[true]'')))
          (js ''data:image/png;base64,AAAA'') (Some (js ''my-key''))) = Inr False"
proof -
  let ?key = "js ''my-key''" and ?img = "js ''data:image/png;base64,AAAA''"
  have "?key \<noteq> []" by (simp add: js_def)
  then have g: "getClient None (Some ?key) = (Inr (GoogleGenAI ?key), [NewClient ?key])"
    by (rule getClient_explicit)
  obtain d m where s: "split_data_uri ?img = Inr (d, m)"
    using split_data_uri_ok by blast
  have w: "fst (checkImageForCharacter None (remote_text (Some t)) ?img (Some ?key)) =
           Inr (ToBoolean (case v of
                             JObject ms \<Rightarrow> map_of (rev ms) (js ''hasCharacter'')
                           | _ \<Rightarrow> None))"
    if "JSON_parse t = Inr v" "t \<noteq> []" "v \<noteq> JNull" for t v
    using character_answer_coercion [where remote = "remote_text (Some t)", OF g s _ _ that(2) that(1) that(3)]
    by (simp add: remote_text_def)
  have p1: "JSON_parse (js ''{\"hasCharacter\": \"false\"}'') = Inr (JObject [(js ''hasCharacter'', JString (js ''false''))])"
    by code_simp
  have c1: "fst (checkImageForCharacter None (remote_text (Some (js ''{\"hasCharacter\": \"false\"}'')))
          (js ''data:image/png;base64,AAAA'') (Some ?key)) = Inr True"
    using w [OF p1] by (simp add: js_def)
  have p2: "JSON_parse (js ''{\"hasCharacter\": 1}'') = Inr (JObject [(js ''hasCharacter'', JNumber 1)])"
    by code_simp
  have c2: "fst (checkImageForCharacter None (remote_text (Some (js ''{\"hasCharacter\": 1}'')))
          (js ''data:image/png;base64,AAAA'') (Some ?key)) = Inr True"
    using w [OF p2] by (simp add: js_def)
  have p3: "JSON_parse (js ''{\"hasCharacter\": true}'') = Inr (JObject [(js ''hasCharacter'', JBool True)])"
    by code_simp
  have c3: "fst (checkImageForCharacter None (remote_text (Some (js ''{\"hasCharacter\": true}'')))
          (js ''data:image/png;base64,AAAA'') (Some ?key)) = Inr True"
    using w [OF p3] by (simp add: js_def)
  have p4: "JSON_parse (js ''{}'') = Inr (JObject [])"
    by code_simp
  have c4: "fst (checkImageForCharacter None (remote_text (Some (js ''{}'')))
          (js ''data:image/png;base64,AAAA'') (Some ?key)) = Inr False"
    using w [OF p4] by (simp add: js_def)
  have p5: "JSON_parse (js ''{\"hasCharacter\": false}'') = Inr (JObject [(js ''hasCharacter'', JBool False)])"
    by code_simp
  have c5: "fst (checkImageForCharacter None (remote_text (Some (js ''{\"hasCharacter\": false}'')))
          (js ''data:image/png;base64,AAAA'') (Some ?key)) = Inr False"
    using w [OF p5] by (simp add: js_def)
  have p6: "JSON_parse (js ''{\"hasCharacter\": 0}'') = Inr (JObject [(js ''hasCharacter'', JNumber 0)])"
    by code_simp
  have c6: "fst (checkImageForCharacter None (remote_text (Some (js ''{\"hasCharacter\": 0}'')))
          (js ''data:image/png;base64,AAAA'') (Some ?key)) = Inr False"
    using w [OF p6] by (simp add: js_def)
  have p7: "JSON_parse (js ''{\"hasCharacter\": null}'') = Inr (JObject [(js ''hasCharacter'', JNull)])"
    by code_simp
  have c7: "fst (checkImageForCharacter None (remote_text (Some (js ''{\"hasCharacter\": null}'')))
          (js ''data:image/png;base64,AAAA'') (Some ?key)) = Inr False"
    using w [OF p7] by (simp add: js_def)
  have p8: "JSON_parse (js ''{\"hasCharacter\": \"\"}'') = Inr (JObject [(js ''hasCharacter'', JString [])])"
    by code_simp
  have c8: "fst (checkImageForCharacter None (remote_text (Some (js ''{\"hasCharacter\": \"\"}'')))
          (js ''data:image/png;base64,AAAA'') (Some ?key)) = Inr False"
    using w [OF p8] by (simp add: js_def)
  have p9: "JSON_parse (js ''[true]'') = Inr (JArray [JBool True])"
    by code_simp
  have c9: "fst (checkImageForCharacter None (remote_text (Some (js ''[true]'')))
          (js ''data:image/png;base64,AAAA'') (Some ?key)) = Inr False"
    using w [OF p9] by (simp add: js_def)
  from c1 c2 c3 c4 c5 c6 c7 c8 c9 show ?thesis
    by simp
qed

end
